theory Spec2Isabelle
  imports Complex_Main "HOL-Library.Multiset"
begin

section \<open>Tensors and the tensor operations the encoder uses\<close>

text \<open>
  A tensor is its shape together with its indexing function. Element types: token and
  factor ids are Python integers (\<open>int\<close>), embedding weights and activations are
  floating-point numbers, whose values are real numbers (the rounding of the operations
  on them is a parameter of the model, see below); masks are booleans. A 1-D tensor (the valid lengths) is a list.
\<close>

record 'a tensor2 =
  size0 :: nat
  size1 :: nat
  at2 :: "nat \<Rightarrow> nat \<Rightarrow> 'a"

record 'a tensor3 =
  size0 :: nat
  size1 :: nat
  size2 :: nat
  at3 :: "nat \<Rightarrow> nat \<Rightarrow> nat \<Rightarrow> 'a"

record 'a tensor4 =
  size0 :: nat
  size1 :: nat
  size2 :: nat
  size3 :: nat
  at4 :: "nat \<Rightarrow> nat \<Rightarrow> nat \<Rightarrow> nat \<Rightarrow> 'a"

datatype error =
  IndexError
  | ValueError string
  | RuntimeError
  | NotImplementedError

text \<open>\<open>data[:, :, i]\<close>: the slice of one factor; an index past the last axis raises.\<close>

definition select_factor :: "'a tensor3 \<Rightarrow> nat \<Rightarrow> error + 'a tensor2" where
  "select_factor data i =
     (if i < tensor3.size2 data
      then Inr \<lparr>tensor2.size0 = tensor3.size0 data, tensor2.size1 = tensor3.size1 data,
                at2 = (\<lambda>b t. at3 data b t i)\<rparr>
      else Inl IndexError)"

text \<open>
  \<open>pt.nn.Embedding(num_embeddings, embedding_dim)\<close>: a table of \<open>num_embeddings\<close>
  rows of width \<open>embedding_dim\<close>. Its weights are learned parameters, given to the
  constructor here as the function \<open>w\<close>. The sizes are natural numbers: the
  framework rejects a negative size.
\<close>

record nn_Embedding =
  num_embeddings :: nat
  embedding_dim :: nat
  weight :: "nat \<Rightarrow> nat \<Rightarrow> real"

definition new_nn_Embedding :: "(nat \<Rightarrow> nat \<Rightarrow> real) \<Rightarrow> nat \<Rightarrow> nat \<Rightarrow> nn_Embedding" where
  "new_nn_Embedding w n d = \<lparr>num_embeddings = n, embedding_dim = d, weight = w\<rparr>"

definition ids_in_range :: "nat \<Rightarrow> int tensor2 \<Rightarrow> bool" where
  "ids_in_range n x =
     list_all (\<lambda>b. list_all (\<lambda>t. 0 \<le> at2 x b t \<and> at2 x b t < int n) [0..<tensor2.size1 x])
       [0..<tensor2.size0 x]"

text \<open>The lookup of a table: an id outside \<open>[0, num_embeddings)\<close> raises.\<close>

definition nn_Embedding_forward :: "nn_Embedding \<Rightarrow> int tensor2 \<Rightarrow> error + real tensor3" where
  "nn_Embedding_forward e x =
     (if ids_in_range (num_embeddings e) x
      then Inr \<lparr>tensor3.size0 = tensor2.size0 x, tensor3.size1 = tensor2.size1 x,
                tensor3.size2 = embedding_dim e,
                at3 = (\<lambda>b t k. weight e (nat (at2 x b t)) k)\<rparr>
      else Inl IndexError)"

definition same_shape :: "'a tensor3 \<Rightarrow> 'a tensor3 \<Rightarrow> bool" where
  "same_shape x y \<longleftrightarrow>
     tensor3.size0 x = tensor3.size0 y \<and> tensor3.size1 x = tensor3.size1 y
     \<and> tensor3.size2 x = tensor3.size2 y"

text \<open>\<open>pt.stack(xs, dim=0)\<close>: all tensors must have one shape.\<close>

definition pt_stack :: "'a tensor3 list \<Rightarrow> error + 'a tensor4" where
  "pt_stack xs =
     (case xs of
        [] \<Rightarrow> Inl RuntimeError
      | x # _ \<Rightarrow>
          if list_all (\<lambda>y. same_shape y x) xs
          then Inr \<lparr>tensor4.size0 = length xs, tensor4.size1 = tensor3.size0 x,
                    tensor4.size2 = tensor3.size1 x, size3 = tensor3.size2 x,
                    at4 = (\<lambda>n b t k. at3 (xs ! n) b t k)\<rparr>
          else Inl RuntimeError)"

text \<open>
  The tables and the embedded tensors have a floating-point data type (the parameter
  \<open>dtype\<close> of the constructors), and the framework rounds every result to it, so
  that its addition is not the addition of the reals. The scalar operations of the data
  type are a parameter of the model: \<open>float_add A x y\<close> is the sum the framework
  returns for \<open>x\<close> and \<open>y\<close>, and \<open>float_mean A xs\<close> the mean it returns for the
  values \<open>xs\<close>, given in the order in which they are stacked. The values themselves
  are real numbers.
\<close>

record arithmetic =
  float_add :: "real \<Rightarrow> real \<Rightarrow> real"
  float_mean :: "real list \<Rightarrow> real"


text \<open>
  The arithmetic of 32-bit floating-point numbers: every result is rounded to 24
  significant bits, to the nearest such number, a tie going to the one with an even last
  bit. The limits of the range of the format (overflow, subnormal numbers) are left out.
  The mean is the rounded sum, taken from left to right, divided by the number of values.
\<close>

definition round_even :: "real \<Rightarrow> int" where
  "round_even r =
     (let f = \<lfloor>r\<rfloor>
      in if r - of_int f < 1 / 2 then f
         else if 1 / 2 < r - of_int f then f + 1
         else if even f then f else f + 1)"

definition round32 :: "real \<Rightarrow> real" where
  "round32 x =
     (if x = 0 then 0
      else (let u = 2 powr of_int (\<lfloor>log 2 \<bar>x\<bar>\<rfloor> - 23)
            in u * of_int (round_even (x / u))))"

definition float32 :: arithmetic where
  "float32 =
     \<lparr>float_add = (\<lambda>x y. round32 (x + y)),
      float_mean = (\<lambda>xs. round32 (foldl (\<lambda>s x. round32 (s + x)) 0 xs / real (length xs)))\<rparr>"

text \<open>\<open>pt.mean(x, dim=0)\<close>: the mean over the first axis.\<close>

definition pt_mean :: "arithmetic \<Rightarrow> real tensor4 \<Rightarrow> real tensor3" where
  "pt_mean A x =
     \<lparr>tensor3.size0 = tensor4.size1 x, tensor3.size1 = tensor4.size2 x,
      tensor3.size2 = size3 x,
      at3 = (\<lambda>b t k. float_mean A (map (\<lambda>n. at4 x n b t k) [0..<tensor4.size0 x]))\<rparr>"

text \<open>
  \<open>x + y\<close> on tensors broadcasts: along each axis the sizes must agree or one of them
  must be 1, and an axis of size 1 is read at index 0.
\<close>

definition broadcast_size :: "nat \<Rightarrow> nat \<Rightarrow> nat option" where
  "broadcast_size a b =
     (if a = b then Some a else if a = 1 then Some b else if b = 1 then Some a else None)"

definition bidx :: "nat \<Rightarrow> nat \<Rightarrow> nat" where
  "bidx n i = (if n = 1 then 0 else i)"

definition broadcast_at :: "real tensor3 \<Rightarrow> nat \<Rightarrow> nat \<Rightarrow> nat \<Rightarrow> real" where
  "broadcast_at x b t k =
     at3 x (bidx (tensor3.size0 x) b) (bidx (tensor3.size1 x) t) (bidx (tensor3.size2 x) k)"

definition tensor_add ::
  "arithmetic \<Rightarrow> real tensor3 \<Rightarrow> real tensor3 \<Rightarrow> error + real tensor3" where
  "tensor_add A x y =
     (case broadcast_size (tensor3.size0 x) (tensor3.size0 y) of
        None \<Rightarrow> Inl RuntimeError
      | Some n0 \<Rightarrow>
     (case broadcast_size (tensor3.size1 x) (tensor3.size1 y) of
        None \<Rightarrow> Inl RuntimeError
      | Some n1 \<Rightarrow>
     (case broadcast_size (tensor3.size2 x) (tensor3.size2 y) of
        None \<Rightarrow> Inl RuntimeError
      | Some n2 \<Rightarrow>
          Inr \<lparr>tensor3.size0 = n0, tensor3.size1 = n1, tensor3.size2 = n2,
               at3 = (\<lambda>b t k. float_add A (broadcast_at x b t k) (broadcast_at y b t k))\<rparr>)))"

text \<open>\<open>pt.cat(xs, dim=2)\<close>: the other two axes must agree; the last axes are appended.\<close>

definition cat2 :: "'a tensor3 \<Rightarrow> 'a tensor3 \<Rightarrow> error + 'a tensor3" where
  "cat2 x y =
     (if tensor3.size0 x = tensor3.size0 y \<and> tensor3.size1 x = tensor3.size1 y
      then Inr \<lparr>tensor3.size0 = tensor3.size0 x, tensor3.size1 = tensor3.size1 x,
                tensor3.size2 = tensor3.size2 x + tensor3.size2 y,
                at3 = (\<lambda>b t k. if k < tensor3.size2 x then at3 x b t k
                                else at3 y b t (k - tensor3.size2 x))\<rparr>
      else Inl RuntimeError)"

fun cat_onto :: "'a tensor3 \<Rightarrow> 'a tensor3 list \<Rightarrow> error + 'a tensor3" where
  "cat_onto x [] = Inr x"
| "cat_onto x (y # ys) = (case cat2 x y of Inl e \<Rightarrow> Inl e | Inr z \<Rightarrow> cat_onto z ys)"

definition pt_cat :: "'a tensor3 list \<Rightarrow> error + 'a tensor3" where
  "pt_cat xs = (case xs of [] \<Rightarrow> Inl RuntimeError | x # ys \<Rightarrow> cat_onto x ys)"

section \<open>The configuration records\<close>

text \<open>
  The names of the combination modes live in \<open>sockeye.constants\<close>, which is not part
  of the sources at hand: they are a parameter of the model.
\<close>

record constants =
  FACTORS_COMBINE_CONCAT :: string
  FACTORS_COMBINE_SUM :: string
  FACTORS_COMBINE_AVERAGE :: string

record FactorConfig =
  vocab_size :: nat
  num_embed :: nat
  combine :: string
  share_embedding :: bool

record EmbeddingConfig =
  vocab_size :: nat
  num_embed :: nat
  dropout :: real
  num_factors :: nat
  factor_configs :: "FactorConfig list option"
  allow_sparse_grad :: bool

text \<open>\<open>__post_init__\<close> sets \<open>num_factors\<close>, which is not an argument of the constructor.\<close>

definition EmbeddingConfig_post_init :: "EmbeddingConfig \<Rightarrow> EmbeddingConfig" where
  "EmbeddingConfig_post_init c =
     (let c1 = c\<lparr>num_factors := 1\<rparr>
      in case factor_configs c1 of
           None \<Rightarrow> c1
         | Some fcs \<Rightarrow> c1\<lparr>num_factors := num_factors c1 + length fcs\<rparr>)"

definition new_EmbeddingConfig ::
  "nat \<Rightarrow> nat \<Rightarrow> real \<Rightarrow> FactorConfig list option \<Rightarrow> bool \<Rightarrow> EmbeddingConfig" where
  "new_EmbeddingConfig vs ne dr fcs sparse =
     EmbeddingConfig_post_init
       \<lparr>EmbeddingConfig.vocab_size = vs, EmbeddingConfig.num_embed = ne, dropout = dr,
        num_factors = 0, factor_configs = fcs, allow_sparse_grad = sparse\<rparr>"

section \<open>The encoder interface\<close>

text \<open>
  The methods of the base class \<open>Encoder\<close>. \<open>get_num_hidden\<close> is abstract;
  \<open>get_encoded_seq_len\<close> and \<open>get_max_seq_len\<close> are inherited by every subclass
  that does not override them.
\<close>

definition Encoder_get_num_hidden :: "'self \<Rightarrow> error + int" where
  "Encoder_get_num_hidden self = Inl NotImplementedError"

definition Encoder_get_encoded_seq_len :: "'self \<Rightarrow> int \<Rightarrow> int" where
  "Encoder_get_encoded_seq_len self seq_len = seq_len"

definition Encoder_get_max_seq_len :: "'self \<Rightarrow> int option" where
  "Encoder_get_max_seq_len self = None"

section \<open>Embedding\<close>

text \<open>
  The field \<open>dropout\<close> holds the probability of the dropout module, or \<open>None\<close> when
  no module was built.
\<close>

record Embedding =
  config :: EmbeddingConfig
  embedding :: nn_Embedding
  num_factors :: nat
  factor_embeds :: "nn_Embedding list"
  factor_combinations :: "string list"
  dropout :: "real option"

text \<open>
  The loop of \<open>__init__\<close> over \<open>enumerate(factor_configs, 1)\<close>: a factor that shares
  the embedding gets the primary table itself, any other a table of its own, whose
  weights are \<open>w i\<close>.
\<close>

fun init_factors ::
  "nn_Embedding \<Rightarrow> (nat \<Rightarrow> nat \<Rightarrow> nat \<Rightarrow> real) \<Rightarrow> nat \<Rightarrow> FactorConfig list
   \<Rightarrow> nn_Embedding list \<times> string list" where
  "init_factors emb w i [] = ([], [])"
| "init_factors emb w i (fc # fcs) =
     (let factor_embed =
            (if share_embedding fc then emb
             else new_nn_Embedding (w i) (FactorConfig.vocab_size fc) (FactorConfig.num_embed fc));
          (embeds, combinations) = init_factors emb w (Suc i) fcs
      in (factor_embed # embeds, combine fc # combinations))"

definition Embedding_init ::
  "EmbeddingConfig \<Rightarrow> nn_Embedding option \<Rightarrow> (nat \<Rightarrow> nat \<Rightarrow> nat \<Rightarrow> real) \<Rightarrow> Embedding" where
  "Embedding_init cfg pre w =
     (let emb = (case pre of
                   Some e \<Rightarrow> e
                 | None \<Rightarrow> new_nn_Embedding (w 0) (EmbeddingConfig.vocab_size cfg)
                             (EmbeddingConfig.num_embed cfg));
          (embeds, combinations) =
             (case factor_configs cfg of
                None \<Rightarrow> ([], [])
              | Some fcs \<Rightarrow> init_factors emb w 1 fcs)
      in \<lparr>config = cfg, embedding = emb, num_factors = EmbeddingConfig.num_factors cfg,
          factor_embeds = embeds, factor_combinations = combinations,
          dropout = (if EmbeddingConfig.dropout cfg > 0 then Some (EmbeddingConfig.dropout cfg)
                     else None)\<rparr>)"

text \<open>
  The three lists of \<open>forward\<close>, in the order the code declares them: average,
  concatenate, sum.
\<close>

type_synonym buckets = "real tensor3 list \<times> real tensor3 list \<times> real tensor3 list"

text \<open>
  The loop of \<open>forward\<close> over \<open>enumerate(zip(factor_embeds, factor_combinations), 1)\<close>:
  slice, look up, then put the result into the list of its combination mode. The first
  failure ends the loop.
\<close>

fun factor_loop ::
  "constants \<Rightarrow> int tensor3 \<Rightarrow> nat \<Rightarrow> (nn_Embedding \<times> string) list \<Rightarrow> buckets
   \<Rightarrow> error + buckets" where
  "factor_loop C data i [] acc = Inr acc"
| "factor_loop C data i ((factor_embedding, factor_combination) # rest)
     (average_factors_embeds, concat_factors_embeds, sum_factors_embeds) =
     (case select_factor data i of
        Inl e \<Rightarrow> Inl e
      | Inr factor_data \<Rightarrow>
     (case nn_Embedding_forward factor_embedding factor_data of
        Inl e \<Rightarrow> Inl e
      | Inr factor_embedded \<Rightarrow>
          if factor_combination = FACTORS_COMBINE_CONCAT C
          then factor_loop C data (Suc i) rest
                 (average_factors_embeds, concat_factors_embeds @ [factor_embedded],
                  sum_factors_embeds)
          else if factor_combination = FACTORS_COMBINE_SUM C
          then factor_loop C data (Suc i) rest
                 (average_factors_embeds, concat_factors_embeds,
                  sum_factors_embeds @ [factor_embedded])
          else if factor_combination = FACTORS_COMBINE_AVERAGE C
          then factor_loop C data (Suc i) rest
                 (average_factors_embeds @ [factor_embedded], concat_factors_embeds,
                  sum_factors_embeds)
          else Inl (ValueError factor_combination)))"

text \<open>The loop \<open>for sum_factor_embed in sum_factors_embeds: embedded = embedded + ...\<close>\<close>

fun add_each :: "arithmetic \<Rightarrow> real tensor3 \<Rightarrow> real tensor3 list \<Rightarrow> error + real tensor3" where
  "add_each A embedded [] = Inr embedded"
| "add_each A embedded (sum_factor_embed # rest) =
     (case tensor_add A embedded sum_factor_embed of
        Inl e \<Rightarrow> Inl e
      | Inr embedded' \<Rightarrow> add_each A embedded' rest)"

text \<open>The three combination steps of \<open>forward\<close>, each skipped when its list is empty.\<close>

definition combine_buckets ::
  "arithmetic \<Rightarrow> real tensor3 \<Rightarrow> buckets \<Rightarrow> error + real tensor3" where
  "combine_buckets A embedded bs =
     (case bs of (average_factors_embeds, concat_factors_embeds, sum_factors_embeds) \<Rightarrow>
     (case (if average_factors_embeds \<noteq> []
            then (case pt_stack (embedded # average_factors_embeds) of
                    Inl e \<Rightarrow> Inl e
                  | Inr s \<Rightarrow> Inr (pt_mean A s))
            else Inr embedded) of
        Inl e \<Rightarrow> Inl e
      | Inr embedded1 \<Rightarrow>
     (case (if sum_factors_embeds \<noteq> [] then add_each A embedded1 sum_factors_embeds
            else Inr embedded1) of
        Inl e \<Rightarrow> Inl e
      | Inr embedded2 \<Rightarrow>
          if concat_factors_embeds \<noteq> [] then pt_cat (embedded2 # concat_factors_embeds)
          else Inr embedded2)))"

text \<open>
  \<open>pt.nn.Dropout(p)\<close> applied to a tensor: in training mode every element is kept
  with probability \<open>1 - p\<close> and scaled by \<open>1 / (1 - p)\<close>, or set to zero; in
  evaluation mode the tensor is returned as it is. The random choice of the elements to
  keep is the parameter \<open>draw\<close>, the mode is the parameter \<open>training\<close>.
  The framework only builds the module for a probability between 0 and 1.
\<close>

definition nn_Dropout ::
  "bool \<Rightarrow> real \<Rightarrow> (nat \<Rightarrow> nat \<Rightarrow> nat \<Rightarrow> bool) \<Rightarrow> real tensor3 \<Rightarrow> real tensor3" where
  "nn_Dropout training p draw x =
     (if training
      then x\<lparr>at3 := (\<lambda>b t k. if draw b t k then at3 x b t k / (1 - p) else 0)\<rparr>
      else x)"

text \<open>\<open>if self.dropout is not None: x = self.dropout(x)\<close>\<close>

definition apply_dropout ::
  "bool \<Rightarrow> real option \<Rightarrow> (nat \<Rightarrow> nat \<Rightarrow> nat \<Rightarrow> bool) \<Rightarrow> real tensor3 \<Rightarrow> real tensor3" where
  "apply_dropout training dropout_module draw x =
     (case dropout_module of None \<Rightarrow> x | Some p \<Rightarrow> nn_Dropout training p draw x)"

definition Embedding_forward ::
  "arithmetic \<Rightarrow> constants \<Rightarrow> bool \<Rightarrow> Embedding \<Rightarrow> (nat \<Rightarrow> nat \<Rightarrow> nat \<Rightarrow> bool) \<Rightarrow> int tensor3
   \<Rightarrow> error + real tensor3" where
  "Embedding_forward A C training self draw data =
     (case select_factor data 0 of
        Inl e \<Rightarrow> Inl e
      | Inr primary_data \<Rightarrow>
     (case nn_Embedding_forward (embedding self) primary_data of
        Inl e \<Rightarrow> Inl e
      | Inr embedded \<Rightarrow>
     (case (if Embedding.num_factors self > 1
            then (case factor_loop C data 1
                         (zip (factor_embeds self) (factor_combinations self)) ([], [], []) of
                    Inl e \<Rightarrow> Inl e
                  | Inr bs \<Rightarrow> combine_buckets A embedded bs)
            else Inr embedded) of
        Inl e \<Rightarrow> Inl e
      | Inr embedded' \<Rightarrow> Inr (apply_dropout training (Embedding.dropout self) draw embedded'))))"

definition Embedding_get_num_hidden :: "Embedding \<Rightarrow> nat" where
  "Embedding_get_num_hidden self = EmbeddingConfig.num_embed (config self)"

definition Embedding_get_encoded_seq_len :: "Embedding \<Rightarrow> int \<Rightarrow> int" where
  "Embedding_get_encoded_seq_len = Encoder_get_encoded_seq_len"

definition Embedding_get_max_seq_len :: "Embedding \<Rightarrow> int option" where
  "Embedding_get_max_seq_len = Encoder_get_max_seq_len"

section \<open>TransformerEncoder\<close>

text \<open>
  \<open>transformer.TransformerConfig\<close> is declared outside the sources at hand; the record
  has the fields the encoder reads.
\<close>

record TransformerConfig =
  model_size :: nat
  attention_heads :: nat
  dropout_prepost :: real
  max_seq_len_source :: nat
  num_layers :: nat
  positional_embedding_type :: string
  preprocess_sequence :: string

text \<open>
  The attention mask handed to the layers: the single-head mask of shape
  \<open>(batch, max_len)\<close>, or its expansion of shape \<open>(batch * heads, max_len, max_len)\<close>.
\<close>

datatype att_mask = SingleHead "bool tensor2" | PerHead "bool tensor3"

type_synonym module3 = "real tensor3 \<Rightarrow> error + real tensor3"

type_synonym encoder_block =
  "real tensor3 \<Rightarrow> att_mask \<Rightarrow> real list option \<Rightarrow> real list option \<Rightarrow> error + real tensor3"

text \<open>
  The constructors of the modules that the encoder builds and that live in
  \<open>sockeye.layers\<close> and \<open>sockeye.transformer\<close>, outside the sources at hand: they
  are parameters. Each returns the function its module computes; the blocks get their
  position in the stack, since each has parameters of its own.
\<close>

record sockeye_modules =
  PositionalEmbeddings :: "string \<Rightarrow> nat \<Rightarrow> nat \<Rightarrow> bool \<Rightarrow> bool \<Rightarrow> module3"
  TransformerEncoderBlock :: "TransformerConfig \<Rightarrow> bool \<Rightarrow> nat \<Rightarrow> encoder_block"
  TransformerProcessBlock :: "string \<Rightarrow> real \<Rightarrow> nat \<Rightarrow> module3"

text \<open>
  Modelled from the spec: \<open>layers.prepare_source_length_mask\<close> is outside the sources
  at hand. The spec: "Build a length-mask from valid_length: position j in batch i is
  valid iff j < valid_length[i]", "a single-head boolean/float attention mask of shape
  (batch, max_len) marking valid positions". The encoder always calls it with
  \<open>expand=False\<close>, the single-head mask, which does not depend on the number of heads.
\<close>

definition prepare_source_length_mask :: "int list \<Rightarrow> nat \<Rightarrow> nat \<Rightarrow> bool tensor2" where
  "prepare_source_length_mask lengths heads max_length =
     \<lparr>tensor2.size0 = length lengths, tensor2.size1 = max_length,
      at2 = (\<lambda>i j. int j < lengths ! i)\<rparr>"

record TransformerEncoder =
  config :: TransformerConfig
  inference_only :: bool
  using_native_mha :: bool
  mha_qkv_bias :: "real list option"
  mha_proj_bias :: "real list option"
  dropout :: "real option"
  pos_embedding :: module3
  layers :: "encoder_block list"
  final_process :: module3

text \<open>
  \<open>has_native_mha\<close> is \<open>hasattr(pt, '_native_multi_head_attention')\<close>, a fact of the
  installed framework.
\<close>

definition TransformerEncoder_init ::
  "sockeye_modules \<Rightarrow> bool \<Rightarrow> TransformerConfig \<Rightarrow> bool \<Rightarrow> TransformerEncoder" where
  "TransformerEncoder_init M has_native_mha cfg inference =
     (let native = (inference \<and> has_native_mha)
      in \<lparr>config = cfg, inference_only = inference, using_native_mha = native,
          mha_qkv_bias = (if native then Some (replicate (model_size cfg * 3) 0) else None),
          mha_proj_bias = (if native then Some (replicate (model_size cfg) 0) else None),
          dropout = (if dropout_prepost cfg > 0 then Some (dropout_prepost cfg) else None),
          pos_embedding =
            PositionalEmbeddings M (positional_embedding_type cfg) (model_size cfg)
              (max_seq_len_source cfg) True False,
          layers = map (TransformerEncoderBlock M cfg inference) [0..<num_layers cfg],
          final_process =
            TransformerProcessBlock M (preprocess_sequence cfg) (dropout_prepost cfg)
              (model_size cfg)\<rparr>)"

text \<open>
  \<open>mask.unsqueeze(1).expand(-1, heads, -1).reshape((-1, max_len)).unsqueeze(1)
  .expand(-1, max_len, -1)\<close>: every row of the mask is repeated for each head and each
  query position. The framework refuses \<open>reshape((-1, 0))\<close>.
\<close>

definition expand_att_mask :: "bool tensor2 \<Rightarrow> nat \<Rightarrow> nat \<Rightarrow> error + bool tensor3" where
  "expand_att_mask single_head_att_mask heads max_len =
     (if max_len = 0 then Inl RuntimeError
      else Inr \<lparr>tensor3.size0 = tensor2.size0 single_head_att_mask * heads,
                tensor3.size1 = max_len, tensor3.size2 = max_len,
                at3 = (\<lambda>n q k. at2 single_head_att_mask (n div heads) k)\<rparr>)"

text \<open>\<open>data.transpose(1, 0)\<close>\<close>

definition transpose10 :: "'a tensor3 \<Rightarrow> 'a tensor3" where
  "transpose10 x =
     \<lparr>tensor3.size0 = tensor3.size1 x, tensor3.size1 = tensor3.size0 x,
      tensor3.size2 = tensor3.size2 x, at3 = (\<lambda>i j k. at3 x j i k)\<rparr>"

text \<open>The loop \<open>for layer in self.layers: data = layer(data, ...)\<close>\<close>

fun apply_layers ::
  "encoder_block list \<Rightarrow> att_mask \<Rightarrow> real list option \<Rightarrow> real list option \<Rightarrow> real tensor3
   \<Rightarrow> error + real tensor3" where
  "apply_layers [] att qkv proj data = Inr data"
| "apply_layers (layer # rest) att qkv proj data =
     (case layer data att qkv proj of
        Inl e \<Rightarrow> Inl e
      | Inr data' \<Rightarrow> apply_layers rest att qkv proj data')"

definition TransformerEncoder_forward ::
  "bool \<Rightarrow> TransformerEncoder \<Rightarrow> (nat \<Rightarrow> nat \<Rightarrow> nat \<Rightarrow> bool) \<Rightarrow> real tensor3 \<Rightarrow> int list
   \<Rightarrow> error + (real tensor3 \<times> int list \<times> bool tensor2)" where
  "TransformerEncoder_forward training self draw data valid_length =
     (case pos_embedding self data of
        Inl e \<Rightarrow> Inl e
      | Inr data1 \<Rightarrow>
     (let data2 = apply_dropout training (TransformerEncoder.dropout self) draw data1;
          max_len = tensor3.size1 data2;
          single_head_att_mask =
            prepare_source_length_mask valid_length
              (attention_heads (TransformerEncoder.config self)) max_len
      in
     (case (if \<not> using_native_mha self
            then (case expand_att_mask single_head_att_mask
                         (attention_heads (TransformerEncoder.config self)) max_len of
                    Inl e \<Rightarrow> Inl e
                  | Inr m \<Rightarrow> Inr (PerHead m))
            else Inr (SingleHead single_head_att_mask)) of
        Inl e \<Rightarrow> Inl e
      | Inr att \<Rightarrow>
     (let data3 = (if \<not> using_native_mha self then transpose10 data2 else data2)
      in
     (case apply_layers (layers self) att
             (if using_native_mha self then mha_qkv_bias self else None)
             (if using_native_mha self then mha_proj_bias self else None) data3 of
        Inl e \<Rightarrow> Inl e
      | Inr data4 \<Rightarrow>
     (case final_process self data4 of
        Inl e \<Rightarrow> Inl e
      | Inr data5 \<Rightarrow>
          Inr (if \<not> using_native_mha self then transpose10 data5 else data5,
               valid_length, single_head_att_mask)))))))"

definition TransformerEncoder_get_num_hidden :: "TransformerEncoder \<Rightarrow> nat" where
  "TransformerEncoder_get_num_hidden self = model_size (TransformerEncoder.config self)"

definition TransformerEncoder_get_encoded_seq_len :: "TransformerEncoder \<Rightarrow> int \<Rightarrow> int" where
  "TransformerEncoder_get_encoded_seq_len = Encoder_get_encoded_seq_len"

definition TransformerEncoder_get_max_seq_len :: "TransformerEncoder \<Rightarrow> int option" where
  "TransformerEncoder_get_max_seq_len = Encoder_get_max_seq_len"

definition get_transformer_encoder ::
  "sockeye_modules \<Rightarrow> bool \<Rightarrow> TransformerConfig \<Rightarrow> bool \<Rightarrow> TransformerEncoder" where
  "get_transformer_encoder = TransformerEncoder_init"

definition get_encoder ::
  "sockeye_modules \<Rightarrow> bool \<Rightarrow> TransformerConfig \<Rightarrow> bool \<Rightarrow> TransformerEncoder" where
  "get_encoder = get_transformer_encoder"

section \<open>Auxiliary notions\<close>

text \<open>
  The slice of a factor and its lookup, as one step; the recognised combination modes;
  and the embedded factors with their modes, in the order of the loop, or its first
  failure.
\<close>

definition embed_factor :: "int tensor3 \<Rightarrow> nat \<Rightarrow> nn_Embedding \<Rightarrow> error + real tensor3" where
  "embed_factor data i table =
     (case select_factor data i of Inl e \<Rightarrow> Inl e | Inr ids \<Rightarrow> nn_Embedding_forward table ids)"

definition recognised :: "constants \<Rightarrow> string \<Rightarrow> bool" where
  "recognised C m \<longleftrightarrow>
     m = FACTORS_COMBINE_SUM C \<or> m = FACTORS_COMBINE_AVERAGE C \<or> m = FACTORS_COMBINE_CONCAT C"

fun embed_factors ::
  "constants \<Rightarrow> int tensor3 \<Rightarrow> nat \<Rightarrow> (nn_Embedding \<times> string) list
   \<Rightarrow> error + (string \<times> real tensor3) list" where
  "embed_factors C data i [] = Inr []"
| "embed_factors C data i ((table, m) # rest) =
     (case embed_factor data i table of
        Inl e \<Rightarrow> Inl e
      | Inr x \<Rightarrow>
          if recognised C m
          then (case embed_factors C data (Suc i) rest of
                  Inl e \<Rightarrow> Inl e
                | Inr xs \<Rightarrow> Inr ((m, x) # xs))
          else Inl (ValueError m))"

text \<open>
  The list a combination mode lands in, by the order of the tests of the loop: a mode
  equal to two of the constants goes to the list tested first.
\<close>

definition in_concat :: "constants \<Rightarrow> string \<Rightarrow> bool" where
  "in_concat C m \<longleftrightarrow> m = FACTORS_COMBINE_CONCAT C"

definition in_sum :: "constants \<Rightarrow> string \<Rightarrow> bool" where
  "in_sum C m \<longleftrightarrow> m \<noteq> FACTORS_COMBINE_CONCAT C \<and> m = FACTORS_COMBINE_SUM C"

definition in_average :: "constants \<Rightarrow> string \<Rightarrow> bool" where
  "in_average C m \<longleftrightarrow>
     m \<noteq> FACTORS_COMBINE_CONCAT C \<and> m \<noteq> FACTORS_COMBINE_SUM C \<and> m = FACTORS_COMBINE_AVERAGE C"

definition bucket :: "(string \<Rightarrow> bool) \<Rightarrow> (string \<times> 'a) list \<Rightarrow> 'a list" where
  "bucket P xs = map snd (filter (\<lambda>p. P (fst p)) xs)"

definition configured_factors :: "FactorConfig list option \<Rightarrow> FactorConfig list" where
  "configured_factors fcs = (case fcs of None \<Rightarrow> [] | Some xs \<Rightarrow> xs)"

text \<open>An embedding whose factor count is one more than the number of its factor tables.\<close>

definition counted :: "Embedding \<Rightarrow> bool" where
  "counted self \<longleftrightarrow>
     Embedding.num_factors self = 1 + length (factor_embeds self) \<and>
     length (factor_combinations self) = length (factor_embeds self)"



definition stack_mean :: "arithmetic \<Rightarrow> real tensor3 list \<Rightarrow> error + real tensor3" where
  "stack_mean A xs = (case pt_stack xs of Inl e \<Rightarrow> Inl e | Inr st \<Rightarrow> Inr (pt_mean A st))"


definition combine_all ::
  "arithmetic \<Rightarrow> real tensor3 \<Rightarrow> real tensor3 list \<Rightarrow> real tensor3 list \<Rightarrow> real tensor3 list
   \<Rightarrow> error + real tensor3" where
  "combine_all A primary a s c =
     (case (if a \<noteq> [] then stack_mean A (primary # a) else Inr primary) of
        Inl e \<Rightarrow> Inl e
      | Inr m \<Rightarrow>
     (case add_each A m s of
        Inl e \<Rightarrow> Inl e
      | Inr x \<Rightarrow> pt_cat (x # c)))"

section \<open>Reordering the factors\<close>

text \<open>
  A reordering of the configured factors: in the new order the factor at position \<open>k\<close>
  is the old factor at position \<open>\<pi> k\<close>. Each factor keeps its configuration, the
  weights of its table and its slice of the input.
\<close>

definition reorder :: "(nat \<Rightarrow> nat) \<Rightarrow> 'a list \<Rightarrow> 'a list" where
  "reorder \<pi> xs = map (\<lambda>k. xs ! \<pi> k) [0..<length xs]"



text \<open>
  An arithmetic whose results do not depend on the order of the operands: what is added
  to a value can be added in either order, and the mean of stacked values does not
  depend on the order of the values after the first. Exact arithmetic is one;
  floating-point arithmetic is not, since every addition rounds.
\<close>

definition order_independent :: "arithmetic \<Rightarrow> bool" where
  "order_independent A \<longleftrightarrow>
     (\<forall>x s t. float_add A (float_add A x s) t = float_add A (float_add A x t) s) \<and>
     (\<forall>x ys ys'. mset ys = mset ys' \<longrightarrow> float_mean A (x # ys) = float_mean A (x # ys'))"

section \<open>The combination of the factors in the words of the specification\<close>

text \<open>
  The specification words the result of \<open>Embedding.forward\<close> before dropout as: the
  elementwise mean of the primary embedding stacked together with all average-mode factor
  embeddings, then the elementwise addition of every sum-mode factor embedding, and
  finally the concatenation of every concatenate-mode factor embedding along the feature
  axis. The definitions of this section follow these words, each giving the shape and the
  elements of its result; they use none of the tensor operations of the first section.

  The embedding of a factor: the input must have the slice of the factor and every id
  of the slice must be a row of the table; the vector at a position is the row of the
  table the id names.
\<close>

definition spec_lookup :: "int tensor3 \<Rightarrow> nat \<Rightarrow> nn_Embedding \<Rightarrow> error + real tensor3" where
  "spec_lookup data i table =
     (if i < tensor3.size2 data \<and>
         (\<forall>b \<in> {0..<tensor3.size0 data}. \<forall>t \<in> {0..<tensor3.size1 data}.
            at3 data b t i \<in> {0..<int (num_embeddings table)})
      then Inr \<lparr>tensor3.size0 = tensor3.size0 data, tensor3.size1 = tensor3.size1 data,
                tensor3.size2 = embedding_dim table,
                at3 = (\<lambda>b t k. weight table (nat (at3 data b t i)) k)\<rparr>
      else Inl IndexError)"

text \<open>
  The embeddings of the factors, each with its mode, in the configured order; factor
  \<open>i\<close> reads slice \<open>i\<close> of the input. A mode that is none of the three is an error.
\<close>

fun spec_factors ::
  "constants \<Rightarrow> int tensor3 \<Rightarrow> nat \<Rightarrow> (nn_Embedding \<times> string) list
   \<Rightarrow> error + (string \<times> real tensor3) list" where
  "spec_factors C data i [] = Inr []"
| "spec_factors C data i ((table, m) # rest) =
     (case spec_lookup data i table of
        Inl e \<Rightarrow> Inl e
      | Inr x \<Rightarrow>
          if m \<in> {FACTORS_COMBINE_AVERAGE C, FACTORS_COMBINE_SUM C, FACTORS_COMBINE_CONCAT C}
          then (case spec_factors C data (Suc i) rest of
                  Inl e \<Rightarrow> Inl e
                | Inr xs \<Rightarrow> Inr ((m, x) # xs))
          else Inl (ValueError m))"

text \<open>The embeddings of the factors of one mode.\<close>

definition spec_of_mode :: "string \<Rightarrow> (string \<times> real tensor3) list \<Rightarrow> real tensor3 list" where
  "spec_of_mode m fs = map snd (filter (\<lambda>f. fst f = m) fs)"

text \<open>
  The elementwise mean of the primary embedding stacked together with the average-mode
  embeddings: all of them have the shape of the primary embedding, and every element of
  the result is the mean of the elements at its position, the one of the primary
  embedding first. Without an average-mode factor nothing is averaged.
\<close>

definition spec_mean ::
  "arithmetic \<Rightarrow> real tensor3 \<Rightarrow> real tensor3 list \<Rightarrow> error + real tensor3" where
  "spec_mean A primary avgs =
     (if avgs = [] then Inr primary
      else if list_all (\<lambda>y. tensor3.size0 y = tensor3.size0 primary \<and>
                             tensor3.size1 y = tensor3.size1 primary \<and>
                             tensor3.size2 y = tensor3.size2 primary) avgs
      then Inr \<lparr>tensor3.size0 = tensor3.size0 primary, tensor3.size1 = tensor3.size1 primary,
                tensor3.size2 = tensor3.size2 primary,
                at3 = (\<lambda>b t k. float_mean A (at3 primary b t k # map (\<lambda>y. at3 y b t k) avgs))\<rparr>
      else Inl RuntimeError)"

text \<open>
  The elementwise addition of the sum-mode embeddings, one after the other. Addition is
  the addition of the framework, which repeats an axis of size 1: \<open>spec_axis n ms\<close> is
  the size of an axis of the result, from the size \<open>n\<close> of the axis of the first
  operand and the sizes \<open>ms\<close> of the axis of the operands added to it, and
  \<open>spec_read x b t k\<close> is the element of \<open>x\<close> that takes part in the element of
  the result at \<open>b\<close>, \<open>t\<close>, \<open>k\<close>. Without a sum-mode factor nothing is added.
\<close>

fun spec_axis :: "nat \<Rightarrow> nat list \<Rightarrow> nat option" where
  "spec_axis n [] = Some n"
| "spec_axis n (m # ms) =
     (if m = n \<or> m = 1 then spec_axis n ms
      else if n = 1 then spec_axis m ms
      else None)"

definition spec_read :: "real tensor3 \<Rightarrow> nat \<Rightarrow> nat \<Rightarrow> nat \<Rightarrow> real" where
  "spec_read x b t k =
     at3 x (if tensor3.size0 x = 1 then 0 else b) (if tensor3.size1 x = 1 then 0 else t)
       (if tensor3.size2 x = 1 then 0 else k)"

definition spec_sum ::
  "arithmetic \<Rightarrow> real tensor3 \<Rightarrow> real tensor3 list \<Rightarrow> error + real tensor3" where
  "spec_sum A x addends =
     (if addends = [] then Inr x
      else (case (spec_axis (tensor3.size0 x) (map tensor3.size0 addends),
                  spec_axis (tensor3.size1 x) (map tensor3.size1 addends),
                  spec_axis (tensor3.size2 x) (map tensor3.size2 addends)) of
              (Some n0, Some n1, Some n2) \<Rightarrow>
                Inr \<lparr>tensor3.size0 = n0, tensor3.size1 = n1, tensor3.size2 = n2,
                     at3 = (\<lambda>b t k. foldl (float_add A) (spec_read x b t k)
                                       (map (\<lambda>s. spec_read s b t k) addends))\<rparr>
            | _ \<Rightarrow> Inl RuntimeError))"

text \<open>
  The concatenation along the feature axis: the concatenate-mode embeddings have the
  batch size and the sequence length of \<open>x\<close>, and the feature axis of the result is
  that of \<open>x\<close> followed by theirs, one after the other.
\<close>

fun spec_side_by_side ::
  "real tensor3 \<Rightarrow> real tensor3 list \<Rightarrow> nat \<Rightarrow> nat \<Rightarrow> nat \<Rightarrow> real" where
  "spec_side_by_side x [] b t k = at3 x b t k"
| "spec_side_by_side x (y # ys) b t k =
     (if k < tensor3.size2 x then at3 x b t k
      else spec_side_by_side y ys b t (k - tensor3.size2 x))"

definition spec_concat :: "real tensor3 \<Rightarrow> real tensor3 list \<Rightarrow> error + real tensor3" where
  "spec_concat x cs =
     (if list_all (\<lambda>c. tensor3.size0 c = tensor3.size0 x \<and> tensor3.size1 c = tensor3.size1 x) cs
      then Inr \<lparr>tensor3.size0 = tensor3.size0 x, tensor3.size1 = tensor3.size1 x,
                tensor3.size2 = tensor3.size2 x + sum_list (map tensor3.size2 cs),
                at3 = spec_side_by_side x cs\<rparr>
      else Inl RuntimeError)"

text \<open>
  The result before dropout, from the primary table and the tables and modes of the
  factors: the mean first, then the sum, then the concatenation.
\<close>

definition spec_Embedding_output ::
  "arithmetic \<Rightarrow> constants \<Rightarrow> int tensor3 \<Rightarrow> nn_Embedding \<Rightarrow> (nn_Embedding \<times> string) list
   \<Rightarrow> error + real tensor3" where
  "spec_Embedding_output A C data primary_table factors =
     (case spec_lookup data 0 primary_table of
        Inl e \<Rightarrow> Inl e
      | Inr primary \<Rightarrow>
     (case spec_factors C data 1 factors of
        Inl e \<Rightarrow> Inl e
      | Inr fs \<Rightarrow>
     (case spec_mean A primary (spec_of_mode (FACTORS_COMBINE_AVERAGE C) fs) of
        Inl e \<Rightarrow> Inl e
      | Inr averaged \<Rightarrow>
     (case spec_sum A averaged (spec_of_mode (FACTORS_COMBINE_SUM C) fs) of
        Inl e \<Rightarrow> Inl e
      | Inr summed \<Rightarrow> spec_concat summed (spec_of_mode (FACTORS_COMBINE_CONCAT C) fs)))))"

section \<open>Concrete inputs\<close>

definition example_modules :: sockeye_modules where
  "example_modules =
     \<lparr>PositionalEmbeddings = (\<lambda>weight_type num_embed max_seq_len scale_up scale_down x. Inr x),
      TransformerEncoderBlock = (\<lambda>cfg inference i x att qkv proj. Inr x),
      TransformerProcessBlock = (\<lambda>sequence p num_hidden x. Inr x)\<rparr>"

definition example_transformer_config :: TransformerConfig where
  "example_transformer_config =
     \<lparr>model_size = 16, attention_heads = 2, dropout_prepost = 0, max_seq_len_source = 100,
      num_layers = 2, positional_embedding_type = ''fixed'', preprocess_sequence = ''n''\<rparr>"

definition example_encoder :: TransformerEncoder where
  "example_encoder = TransformerEncoder_init example_modules False example_transformer_config False"

definition example_embedded :: "real tensor3" where
  "example_embedded = \<lparr>tensor3.size0 = 2, tensor3.size1 = 10, tensor3.size2 = 16, at3 = (\<lambda>b t k. 0)\<rparr>"

definition example_constants :: constants where
  "example_constants =
     \<lparr>FACTORS_COMBINE_CONCAT = ''concat'', FACTORS_COMBINE_SUM = ''sum'',
      FACTORS_COMBINE_AVERAGE = ''average''\<rparr>"

definition example_factor_configs :: "FactorConfig list" where
  "example_factor_configs =
     [\<lparr>FactorConfig.vocab_size = 5, FactorConfig.num_embed = 4, combine = ''sum'',
       share_embedding = False\<rparr>,
      \<lparr>FactorConfig.vocab_size = 5, FactorConfig.num_embed = 2, combine = ''concat'',
       share_embedding = False\<rparr>]"

definition example_weights :: "nat \<Rightarrow> nat \<Rightarrow> nat \<Rightarrow> real" where
  "example_weights table row col = real (100 * table + 10 * row + col)"

definition example_data :: "int tensor3" where
  "example_data =
     \<lparr>tensor3.size0 = 1, tensor3.size1 = 2, tensor3.size2 = 3,
      at3 = (\<lambda>b t f. int (t + f))\<rparr>"

definition example_draw :: "nat \<Rightarrow> nat \<Rightarrow> nat \<Rightarrow> bool" where
  "example_draw b t k = even (b + t + k)"

definition bad_factor_configs :: "FactorConfig list" where
  "bad_factor_configs =
     [\<lparr>FactorConfig.vocab_size = 5, FactorConfig.num_embed = 4, combine = ''sum'',
       share_embedding = False\<rparr>,
      \<lparr>FactorConfig.vocab_size = 5, FactorConfig.num_embed = 2, combine = ''max'',
       share_embedding = False\<rparr>]"

definition keep_all :: "nat \<Rightarrow> nat \<Rightarrow> nat \<Rightarrow> bool" where
  "keep_all b t k = True"

definition broadcast_factor_configs :: "FactorConfig list" where
  "broadcast_factor_configs =
     [\<lparr>FactorConfig.vocab_size = 5, FactorConfig.num_embed = 3, combine = ''sum'',
       share_embedding = False\<rparr>]"

definition shared_factor_configs :: "FactorConfig list" where
  "shared_factor_configs =
     [\<lparr>FactorConfig.vocab_size = 5, FactorConfig.num_embed = 2, combine = ''concat'',
       share_embedding = True\<rparr>]"

text \<open>A table of 10 rows of width 6, built before the embedding and passed to it.\<close>

definition wide_table :: nn_Embedding where
  "wide_table = new_nn_Embedding (example_weights 0) 10 6"


text \<open>
  Two average-mode factors, a sum-mode factor and a concatenate-mode factor, all of
  width 1 with one row; the primary row is 1, every other row is 2.
\<close>

definition mixed_factor_configs :: "FactorConfig list" where
  "mixed_factor_configs =
     [\<lparr>FactorConfig.vocab_size = 1, FactorConfig.num_embed = 1, combine = ''average'',
       share_embedding = False\<rparr>,
      \<lparr>FactorConfig.vocab_size = 1, FactorConfig.num_embed = 1, combine = ''average'',
       share_embedding = False\<rparr>,
      \<lparr>FactorConfig.vocab_size = 1, FactorConfig.num_embed = 1, combine = ''sum'',
       share_embedding = False\<rparr>,
      \<lparr>FactorConfig.vocab_size = 1, FactorConfig.num_embed = 1, combine = ''concat'',
       share_embedding = False\<rparr>]"

definition mixed_weights :: "nat \<Rightarrow> nat \<Rightarrow> nat \<Rightarrow> real" where
  "mixed_weights table row col = (if table = 0 then 1 else 2)"

definition mixed_data :: "int tensor3" where
  "mixed_data =
     \<lparr>tensor3.size0 = 1, tensor3.size1 = 1, tensor3.size2 = 5, at3 = (\<lambda>b t f. 0)\<rparr>"






section \<open>Properties of Embedding\<close>

lemma apply_dropout_sizes [simp]:
  "tensor3.size0 (apply_dropout training m draw x) = tensor3.size0 x"
  "tensor3.size1 (apply_dropout training m draw x) = tensor3.size1 x"
  "tensor3.size2 (apply_dropout training m draw x) = tensor3.size2 x"
  by (simp_all add: apply_dropout_def nn_Dropout_def split: option.splits)

lemma apply_dropout_None [simp]: "apply_dropout training None draw x = x"
  by (simp add: apply_dropout_def)

lemma bucket_simps [simp]:
  "bucket P [] = []"
  "bucket P ((m, x) # xs) = (if P m then x # bucket P xs else bucket P xs)"
  by (simp_all add: bucket_def)

lemma factor_loop_Cons:
  "factor_loop C data i ((table, m) # rest) (a, c, s) =
     (case embed_factor data i table of
        Inl e \<Rightarrow> Inl e
      | Inr x \<Rightarrow>
          if recognised C m
          then factor_loop C data (Suc i) rest
                 (if in_average C m then a @ [x] else a,
                  if in_concat C m then c @ [x] else c,
                  if in_sum C m then s @ [x] else s)
          else Inl (ValueError m))"
  by (auto simp: embed_factor_def recognised_def in_concat_def in_sum_def in_average_def
      split: sum.splits)

lemma factor_loop_buckets:
  "factor_loop C data i ps (a, c, s) =
     (case embed_factors C data i ps of
        Inl e \<Rightarrow> Inl e
      | Inr fs \<Rightarrow> Inr (a @ bucket (in_average C) fs, c @ bucket (in_concat C) fs,
                       s @ bucket (in_sum C) fs))"
proof (induction ps arbitrary: i a c s)
  case Nil
  then show ?case by simp
next
  case (Cons p ps)
  obtain table m where p: "p = (table, m)" by (cases p)
  show ?case
    unfolding p factor_loop_Cons
    by (simp add: Cons.IH split: sum.splits)
qed

lemma combine_buckets_formula:
  "combine_buckets A embedded (a, c, s) = combine_all A embedded a s c"
  by (cases c; cases s)
    (auto simp: combine_buckets_def combine_all_def stack_mean_def pt_cat_def split: sum.splits)

lemma init_factors_fst:
  "fst (init_factors emb w i fcs) =
     map (\<lambda>(k, fc). if share_embedding fc then emb
                      else new_nn_Embedding (w k) (FactorConfig.vocab_size fc)
                             (FactorConfig.num_embed fc))
       (zip [i..<i + length fcs] fcs)"
proof (induction fcs arbitrary: i)
  case Nil
  then show ?case by simp
next
  case (Cons fc fcs)
  have "[i..<i + length (fc # fcs)] = i # [Suc i..<Suc i + length fcs]"
    by (simp add: upt_rec)
  then show ?case
    using Cons.IH [of "Suc i"] by (simp add: split_def Let_def)
qed

lemma init_factors_snd: "snd (init_factors emb w i fcs) = map combine fcs"
  by (induction fcs arbitrary: i) (simp_all add: split_def Let_def)

lemma Embedding_init_fields:
  fixes cfg pre w
  defines "self \<equiv> Embedding_init cfg pre w"
  shows "Embedding.config self = cfg"
    and "embedding self =
           (case pre of Some e \<Rightarrow> e
            | None \<Rightarrow> new_nn_Embedding (w 0) (EmbeddingConfig.vocab_size cfg)
                        (EmbeddingConfig.num_embed cfg))"
    and "Embedding.num_factors self = EmbeddingConfig.num_factors cfg"
    and "factor_embeds self =
           fst (init_factors (embedding self) w 1 (configured_factors (factor_configs cfg)))"
    and "factor_combinations self = map combine (configured_factors (factor_configs cfg))"
    and "Embedding.dropout self =
           (if EmbeddingConfig.dropout cfg > 0 then Some (EmbeddingConfig.dropout cfg) else None)"
  by (simp_all add: self_def Embedding_init_def Let_def split_def configured_factors_def
      init_factors_snd split: option.splits)

lemma new_EmbeddingConfig_fields:
  fixes vs ne dr fcs sparse
  defines "cfg \<equiv> new_EmbeddingConfig vs ne dr fcs sparse"
  shows "EmbeddingConfig.vocab_size cfg = vs"
    and "EmbeddingConfig.num_embed cfg = ne"
    and "EmbeddingConfig.dropout cfg = dr"
    and "EmbeddingConfig.num_factors cfg = 1 + length (configured_factors fcs)"
    and "factor_configs cfg = fcs"
    and "allow_sparse_grad cfg = sparse"
  by (simp_all add: cfg_def new_EmbeddingConfig_def EmbeddingConfig_post_init_def Let_def
      configured_factors_def split: option.splits)

lemma init_factors_length: "length (fst (init_factors emb w i fcs)) = length fcs"
  by (simp add: init_factors_fst)

lemma counted_init: "counted (Embedding_init (new_EmbeddingConfig vs ne dr fcs sparse) pre w)"
  by (simp add: counted_def Embedding_init_fields new_EmbeddingConfig_fields
      init_factors_length)

lemma Embedding_forward_embedded:
  "Embedding_forward A C training self draw data =
     (case embed_factor data 0 (embedding self) of
        Inl e \<Rightarrow> Inl e
      | Inr embedded \<Rightarrow>
     (case (if Embedding.num_factors self > 1
            then (case factor_loop C data 1
                         (zip (factor_embeds self) (factor_combinations self)) ([], [], []) of
                    Inl e \<Rightarrow> Inl e
                  | Inr bs \<Rightarrow> combine_buckets A embedded bs)
            else Inr embedded) of
        Inl e \<Rightarrow> Inl e
      | Inr embedded' \<Rightarrow> Inr (apply_dropout training (Embedding.dropout self) draw embedded')))"
  by (simp add: Embedding_forward_def embed_factor_def split: sum.splits)

lemma Embedding_forward_formula:
  assumes "counted self"
  shows "Embedding_forward A C training self draw data =
     (case embed_factor data 0 (embedding self) of
        Inl e \<Rightarrow> Inl e
      | Inr primary \<Rightarrow>
     (case embed_factors C data 1 (zip (factor_embeds self) (factor_combinations self)) of
        Inl e \<Rightarrow> Inl e
      | Inr fs \<Rightarrow>
     (case combine_all A primary (bucket (in_average C) fs) (bucket (in_sum C) fs)
             (bucket (in_concat C) fs) of
        Inl e \<Rightarrow> Inl e
      | Inr out \<Rightarrow> Inr (apply_dropout training (Embedding.dropout self) draw out))))"
proof (cases "embed_factor data 0 (embedding self)")
  case (Inl e)
  then show ?thesis
    by (simp add: Embedding_forward_embedded)
next
  case (Inr primary)
  show ?thesis
  proof (cases "factor_embeds self = []")
    case True
    then have n: "\<not> Embedding.num_factors self > 1"
      using assms by (simp add: counted_def)
    show ?thesis
      using n True by (simp add: Embedding_forward_embedded Inr combine_all_def pt_cat_def)
  next
    case False
    then have n: "Embedding.num_factors self > 1"
      using assms by (simp add: counted_def)
    show ?thesis
      using n
      by (simp add: Embedding_forward_embedded Inr factor_loop_buckets
          combine_buckets_formula split: sum.splits)
  qed
qed

lemma embed_factor_error: "embed_factor data i table = Inl e \<Longrightarrow> e = IndexError"
  by (auto simp: embed_factor_def select_factor_def nn_Embedding_forward_def
      split: sum.splits if_splits)

lemma embed_factor_sizes:
  assumes "embed_factor data i table = Inr x"
  shows "tensor3.size0 x = tensor3.size0 data" "tensor3.size1 x = tensor3.size1 data"
    "tensor3.size2 x = embedding_dim table"
  using assms
  by (auto simp: embed_factor_def select_factor_def nn_Embedding_forward_def
      split: sum.splits if_splits)

lemma embed_factors_unrecognised:
  assumes "\<exists>p \<in> set ps. \<not> recognised C (snd p)"
  shows "\<exists>e. embed_factors C data i ps = Inl e \<and>
           (e = IndexError \<or> (\<exists>p \<in> set ps. \<not> recognised C (snd p) \<and> e = ValueError (snd p)))"
  using assms
proof (induction ps arbitrary: i)
  case Nil
  then show ?case by simp
next
  case (Cons p ps)
  obtain table m where p: "p = (table, m)" by (cases p)
  show ?case
  proof (cases "embed_factor data i table")
    case (Inl e)
    then show ?thesis using embed_factor_error [OF Inl] by (simp add: p)
  next
    case (Inr x)
    show ?thesis
    proof (cases "recognised C m")
      case False
      then show ?thesis using Inr by (auto simp: p)
    next
      case True
      then have "\<exists>q \<in> set ps. \<not> recognised C (snd q)" using Cons.prems by (auto simp: p)
      from Cons.IH [OF this, of "Suc i"] show ?thesis
        using Inr True by (fastforce simp: p)
    qed
  qed
qed

lemma embed_factors_recognised:
  assumes "\<forall>p \<in> set ps. recognised C (snd p)" and "embed_factors C data i ps = Inl e"
  shows "e = IndexError"
  using assms
proof (induction ps arbitrary: i)
  case Nil
  then show ?case by simp
next
  case (Cons p ps)
  obtain table m where p: "p = (table, m)" by (cases p)
  show ?case
    using Cons.prems Cons.IH [of "Suc i"]
    by (auto simp: p split: sum.splits if_splits dest: embed_factor_error)
qed

lemma embed_factors_first_unrecognised:
  assumes "\<forall>k < length ps. \<exists>x. embed_factor data (i + k) (fst (ps ! k)) = Inr x"
    and "find (\<lambda>p. \<not> recognised C (snd p)) ps = Some q"
  shows "embed_factors C data i ps = Inl (ValueError (snd q))"
  using assms
proof (induction ps arbitrary: i)
  case Nil
  then show ?case by simp
next
  case (Cons p ps)
  obtain table m where p: "p = (table, m)" by (cases p)
  from Cons.prems(1) [rule_format, of 0] obtain x where x: "embed_factor data i table = Inr x"
    by (auto simp: p)
  show ?case
  proof (cases "recognised C m")
    case False
    then have "q = (table, m)" using Cons.prems(2) by (simp add: p)
    then show ?thesis using False x by (simp add: p)
  next
    case True
    have "\<forall>k < length ps. \<exists>x. embed_factor data (Suc i + k) (fst (ps ! k)) = Inr x"
      using Cons.prems(1) by (metis Suc_less_eq add_Suc_shift length_Cons nth_Cons_Suc)
    moreover have "find (\<lambda>p. \<not> recognised C (snd p)) ps = Some q"
      using Cons.prems(2) True by (simp add: p)
    ultimately have "embed_factors C data (Suc i) ps = Inl (ValueError (snd q))"
      by (rule Cons.IH)
    then show ?thesis using x True by (simp add: p)
  qed
qed

lemma pt_stack_error: "pt_stack xs = Inl e \<Longrightarrow> e = RuntimeError"
  by (auto simp: pt_stack_def split: list.splits if_splits)

lemma tensor_add_error: "tensor_add A x y = Inl e \<Longrightarrow> e = RuntimeError"
  by (auto simp: tensor_add_def split: option.splits)

lemma add_each_error: "add_each A x ys = Inl e \<Longrightarrow> e = RuntimeError"
  by (induction ys arbitrary: x) (auto split: sum.splits dest: tensor_add_error)

lemma cat_onto_error: "cat_onto x ys = Inl e \<Longrightarrow> e = RuntimeError"
  by (induction ys arbitrary: x) (auto simp: cat2_def split: sum.splits if_splits)

lemma pt_cat_error: "pt_cat xs = Inl e \<Longrightarrow> e = RuntimeError"
  by (auto simp: pt_cat_def split: list.splits dest: cat_onto_error)

lemma pt_stack_mean_sizes:
  assumes "pt_stack (x # xs) = Inr st"
  shows "tensor3.size0 (pt_mean A st) = tensor3.size0 x"
    "tensor3.size1 (pt_mean A st) = tensor3.size1 x"
    "tensor3.size2 (pt_mean A st) = tensor3.size2 x"
  using assms by (auto simp: pt_stack_def pt_mean_def split: if_splits)

lemma mean_step_sizes:
  assumes "(if a \<noteq> [] then stack_mean A (primary # a) else Inr primary) = Inr m"
  shows "tensor3.size0 m = tensor3.size0 primary" "tensor3.size1 m = tensor3.size1 primary"
    "tensor3.size2 m = tensor3.size2 primary"
  using assms pt_stack_mean_sizes [of primary a _ A]
  by (auto simp: stack_mean_def split: if_splits sum.splits)

lemma combine_all_Inr:
  "combine_all A primary a s c = Inr r \<longleftrightarrow>
     (\<exists>m summed.
        (if a \<noteq> [] then stack_mean A (primary # a) else Inr primary) = Inr m \<and>
        add_each A m s = Inr summed \<and> pt_cat (summed # c) = Inr r)"
  by (auto simp: combine_all_def split: sum.splits)

lemma combine_all_error: "combine_all A primary a s c = Inl e \<Longrightarrow> e = RuntimeError"
  by (auto simp: combine_all_def stack_mean_def split: sum.splits if_splits
      dest: pt_stack_error add_each_error pt_cat_error)

lemma forward_error_cases:
  assumes "counted self" and "Embedding_forward A C training self draw data = Inl e"
  shows "e = IndexError \<or> e = RuntimeError \<or>
         embed_factors C data 1 (zip (factor_embeds self) (factor_combinations self)) = Inl e"
  using assms(2) unfolding Embedding_forward_formula [OF assms(1)]
  by (auto split: sum.splits dest: embed_factor_error combine_all_error)

lemma forward_factor_error:
  assumes "counted self"
    and "embed_factors C data 1 (zip (factor_embeds self) (factor_combinations self)) = Inl e"
  shows "\<exists>e'. Embedding_forward A C training self draw data = Inl e' \<and> (e' = IndexError \<or> e' = e)"
  using assms(2) unfolding Embedding_forward_formula [OF assms(1)]
  by (auto split: sum.splits dest: embed_factor_error)

lemma forward_factor_error_valid:
  assumes "counted self"
    and "embed_factors C data 1 (zip (factor_embeds self) (factor_combinations self)) = Inl e"
    and "embed_factor data 0 (embedding self) = Inr x"
  shows "Embedding_forward A C training self draw data = Inl e"
  using assms(2,3) unfolding Embedding_forward_formula [OF assms(1)]
  by simp

lemma init_zip_modes:
  fixes vs ne dr fcs sparse pre w
  defines "self \<equiv> Embedding_init (new_EmbeddingConfig vs ne dr fcs sparse) pre w"
  shows "map snd (zip (factor_embeds self) (factor_combinations self))
           = map combine (configured_factors fcs)"
    and "map fst (zip (factor_embeds self) (factor_combinations self)) = factor_embeds self"
    and "length (factor_embeds self) = length (configured_factors fcs)"
  by (simp_all add: self_def Embedding_init_fields new_EmbeddingConfig_fields
      init_factors_length)

lemma find_zip_modes:
  assumes "length ts = length fcs"
    and "find (\<lambda>fc. \<not> recognised C (combine fc)) fcs = Some fc"
  shows "\<exists>q. find (\<lambda>p. \<not> recognised C (snd p)) (zip ts (map combine fcs)) = Some q
           \<and> snd q = combine fc"
  using assms
  by (induction ts fcs rule: list_induct2) (auto split: if_splits)

lemma example_embed_factor:
  "f < 3 \<Longrightarrow> Suc f < num_embeddings table \<Longrightarrow>
     \<exists>x. embed_factor example_data f table = Inr x"
  by (auto simp: embed_factor_def select_factor_def nn_Embedding_forward_def ids_in_range_def
      example_data_def upt_rec)

text \<open>
  C5: when some configured factor has a combination mode outside the three recognised
  ones, \<open>Embedding.forward\<close> returns no output: it fails, with the \<open>ValueError\<close> of
  an unrecognised mode unless a lookup fails before; when the lookups of the primary and
  of all factors succeed, it fails with the \<open>ValueError\<close> of the first unrecognised
  mode. When every configured mode is recognised, \<open>forward\<close> never fails with that
  \<open>ValueError\<close>.
\<close>

theorem unknown_combination_fails:
  "((\<exists>fc \<in> set (configured_factors fcs). \<not> recognised C (combine fc)) \<longrightarrow>
      (\<exists>e. Embedding_forward A C training
              (Embedding_init (new_EmbeddingConfig vs ne dr fcs sparse) pre w) draw data = Inl e \<and>
           (e = IndexError \<or>
            (\<exists>fc \<in> set (configured_factors fcs).
               \<not> recognised C (combine fc) \<and> e = ValueError (combine fc))))) \<and>
   ((\<exists>x. embed_factor data 0
            (embedding (Embedding_init (new_EmbeddingConfig vs ne dr fcs sparse) pre w))
          = Inr x) \<and>
    (\<forall>k < length (configured_factors fcs).
       \<exists>y. embed_factor data (Suc k)
              (factor_embeds (Embedding_init (new_EmbeddingConfig vs ne dr fcs sparse) pre w) ! k)
            = Inr y) \<and>
    find (\<lambda>fc. \<not> recognised C (combine fc)) (configured_factors fcs) = Some fc \<longrightarrow>
      Embedding_forward A C training
        (Embedding_init (new_EmbeddingConfig vs ne dr fcs sparse) pre w) draw data
      = Inl (ValueError (combine fc))) \<and>
   ((\<forall>fc \<in> set (configured_factors fcs). recognised C (combine fc)) \<longrightarrow>
      (\<forall>m. Embedding_forward A C training
              (Embedding_init (new_EmbeddingConfig vs ne dr fcs sparse) pre w) draw data
            \<noteq> Inl (ValueError m)))"
proof -
  let ?self = "Embedding_init (new_EmbeddingConfig vs ne dr fcs sparse) pre w"
  let ?ps = "zip (factor_embeds ?self) (factor_combinations ?self)"
  let ?fcs = "configured_factors fcs"
  have c: "counted ?self" by (rule counted_init)
  have modes: "map snd ?ps = map combine ?fcs" by (rule init_zip_modes)
  then have snds: "snd ` set ?ps = combine ` set ?fcs" by (metis set_map)
  have len: "length (factor_embeds ?self) = length ?fcs" by (rule init_zip_modes)
  have zip_eq: "?ps = zip (factor_embeds ?self) (map combine ?fcs)"
    by (simp add: Embedding_init_fields new_EmbeddingConfig_fields)
  have part1: "\<exists>e. Embedding_forward A C training ?self draw data = Inl e \<and>
           (e = IndexError \<or>
            (\<exists>fc \<in> set ?fcs. \<not> recognised C (combine fc) \<and> e = ValueError (combine fc)))"
    if "\<exists>fc \<in> set ?fcs. \<not> recognised C (combine fc)"
  proof -
    from that snds have "\<exists>p \<in> set ?ps. \<not> recognised C (snd p)"
      by (metis (no_types, lifting) image_iff)
    from embed_factors_unrecognised [OF this, of data 1] obtain e where
      e: "embed_factors C data 1 ?ps = Inl e" and
      k: "e = IndexError \<or> (\<exists>p \<in> set ?ps. \<not> recognised C (snd p) \<and> e = ValueError (snd p))"
      by blast
    from k snds have k': "e = IndexError \<or>
        (\<exists>fc \<in> set ?fcs. \<not> recognised C (combine fc) \<and> e = ValueError (combine fc))"
      by (metis (no_types, lifting) image_iff)
    from forward_factor_error [OF c e, where training = training and draw = draw] k' show ?thesis
      by blast
  qed
  have part2: "Embedding_forward A C training ?self draw data = Inl (ValueError (combine fc))"
    if x': "\<exists>x. embed_factor data 0 (embedding ?self) = Inr x"
      and ok: "\<forall>k < length ?fcs. \<exists>y. embed_factor data (Suc k) (factor_embeds ?self ! k) = Inr y"
      and f: "find (\<lambda>fc. \<not> recognised C (combine fc)) ?fcs = Some fc"
  proof -
    from x' obtain x where x: "embed_factor data 0 (embedding ?self) = Inr x" ..
    from find_zip_modes [OF len f] obtain q where
      q: "find (\<lambda>p. \<not> recognised C (snd p)) ?ps = Some q" and sq: "snd q = combine fc"
      unfolding zip_eq by blast
    have "\<forall>k < length ?ps. \<exists>y. embed_factor data (1 + k) (fst (?ps ! k)) = Inr y"
      using ok len by (simp add: zip_eq)
    from embed_factors_first_unrecognised [OF this q]
    have "embed_factors C data 1 ?ps = Inl (ValueError (combine fc))"
      by (simp add: sq)
    from forward_factor_error_valid [OF c this x] show ?thesis .
  qed
  have part3: "Embedding_forward A C training ?self draw data \<noteq> Inl (ValueError m)"
    if "\<forall>fc \<in> set ?fcs. recognised C (combine fc)" for m
  proof
    assume a: "Embedding_forward A C training ?self draw data = Inl (ValueError m)"
    from that snds have r: "\<forall>p \<in> set ?ps. recognised C (snd p)"
      by (metis (no_types, lifting) image_iff)
    from forward_error_cases [OF c a]
    have "embed_factors C data 1 ?ps = Inl (ValueError m)" by simp
    from embed_factors_recognised [OF r this] show False by simp
  qed
  show ?thesis
    using part1 part2 part3 by blast
qed

theorem unknown_combination_fails_witness:
  "(\<exists>fc \<in> set (configured_factors (Some bad_factor_configs)).
      \<not> recognised example_constants (combine fc)) \<and>
   Embedding_forward float32 example_constants True
     (Embedding_init (new_EmbeddingConfig 10 4 0 (Some bad_factor_configs) False) None
        example_weights) example_draw example_data = Inl (ValueError ''max'') \<and>
   list_all (recognised example_constants)
     (map combine (configured_factors (Some example_factor_configs))) \<and>
   Embedding_forward float32 example_constants True
     (Embedding_init (new_EmbeddingConfig 10 4 0 (Some example_factor_configs) False) None
        example_weights) example_draw example_data \<noteq> Inl (ValueError ''max'')"
proof -
  let ?bad = "Embedding_init (new_EmbeddingConfig 10 4 0 (Some bad_factor_configs) False) None
                example_weights"
  let ?fc = "\<lparr>FactorConfig.vocab_size = 5, FactorConfig.num_embed = 2, combine = ''max'',
              share_embedding = False\<rparr>"
  have h1: "\<exists>fc \<in> set (configured_factors (Some bad_factor_configs)).
              \<not> recognised example_constants (combine fc)"
    by (simp add: configured_factors_def bad_factor_configs_def recognised_def
        example_constants_def)
  have h2: "\<exists>x. embed_factor example_data 0 (embedding ?bad) = Inr x"
    by (rule example_embed_factor)
      (simp_all add: Embedding_init_fields new_EmbeddingConfig_fields new_nn_Embedding_def)
  have h3: "\<forall>k < length (configured_factors (Some bad_factor_configs)).
              \<exists>y. embed_factor example_data (Suc k) (factor_embeds ?bad ! k) = Inr y"
  proof (intro allI impI)
    fix k assume "k < length (configured_factors (Some bad_factor_configs))"
    then have "k = 0 \<or> k = 1"
      by (auto simp: configured_factors_def bad_factor_configs_def)
    then show "\<exists>y. embed_factor example_data (Suc k) (factor_embeds ?bad ! k) = Inr y"
      by (auto intro!: example_embed_factor
          simp: Embedding_init_fields new_EmbeddingConfig_fields new_nn_Embedding_def
          configured_factors_def bad_factor_configs_def Let_def)
  qed
  have h4: "find (\<lambda>fc. \<not> recognised example_constants (combine fc))
              (configured_factors (Some bad_factor_configs)) = Some ?fc"
    by (simp add: configured_factors_def bad_factor_configs_def recognised_def
        example_constants_def)
  have h5: "\<forall>fc \<in> set (configured_factors (Some example_factor_configs)).
              recognised example_constants (combine fc)"
    by (simp add: configured_factors_def example_factor_configs_def recognised_def
        example_constants_def)
  from unknown_combination_fails
         [where fcs = "Some bad_factor_configs" and C = example_constants and A = float32
            and training = True and vs = 10 and ne = 4 and dr = 0 and sparse = False
            and pre = None and w = example_weights and draw = example_draw
            and data = example_data and fc = ?fc]
    h1 h2 h3 h4
  have bad: "Embedding_forward float32 example_constants True ?bad example_draw example_data
               = Inl (ValueError ''max'')"
    by simp
  from unknown_combination_fails
         [where fcs = "Some example_factor_configs" and C = example_constants and A = float32
            and training = True and vs = 10 and ne = 4 and dr = 0 and sparse = False
            and pre = None and w = example_weights and draw = example_draw
            and data = example_data and fc = ?fc]
    h5
  have good: "Embedding_forward float32 example_constants True
     (Embedding_init (new_EmbeddingConfig 10 4 0 (Some example_factor_configs) False) None
        example_weights) example_draw example_data \<noteq> Inl (ValueError ''max'')"
    by blast
  have h5': "list_all (recognised example_constants)
              (map combine (configured_factors (Some example_factor_configs)))"
    using h5 by (simp add: list_all_iff)
  show ?thesis
    using h1 h5' bad good by blast
qed

lemma embed_factors_widths:
  assumes "embed_factors C data i ps = Inr fs"
  shows "map (\<lambda>p. (fst p, tensor3.size2 (snd p))) fs
           = map (\<lambda>p. (snd p, embedding_dim (fst p))) ps"
  using assms
proof (induction ps arbitrary: i fs)
  case Nil
  then show ?case by simp
next
  case (Cons p ps)
  obtain table m where p: "p = (table, m)" by (cases p)
  from Cons.prems obtain x fs' where
    x: "embed_factor data i table = Inr x" and
    fs': "embed_factors C data (Suc i) ps = Inr fs'" and
    fs: "fs = (m, x) # fs'"
    by (auto simp: p split: sum.splits if_splits)
  show ?case
    using Cons.IH [OF fs'] embed_factor_sizes(3) [OF x] by (simp add: fs p)
qed

lemma bucket_widths:
  assumes "embed_factors C data i ps = Inr fs"
  shows "map tensor3.size2 (bucket P fs) = map (\<lambda>p. embedding_dim (fst p)) (filter (\<lambda>p. P (snd p)) ps)"
proof -
  have "map tensor3.size2 (bucket P fs)
          = map snd (filter (\<lambda>q. P (fst q)) (map (\<lambda>p. (fst p, tensor3.size2 (snd p))) fs))"
    by (simp add: bucket_def filter_map comp_def)
  also have "\<dots> = map snd (filter (\<lambda>q. P (fst q)) (map (\<lambda>p. (snd p, embedding_dim (fst p))) ps))"
    by (simp only: embed_factors_widths [OF assms])
  also have "\<dots> = map (\<lambda>p. embedding_dim (fst p)) (filter (\<lambda>p. P (snd p)) ps)"
    by (simp add: filter_map comp_def)
  finally show ?thesis .
qed

lemma tensor_add_size2:
  assumes "tensor_add A x y = Inr r" and "tensor3.size2 x = 1 \<longrightarrow> tensor3.size2 y = 1"
  shows "tensor3.size2 r = tensor3.size2 x"
  using assms by (auto simp: tensor_add_def broadcast_size_def split: option.splits if_splits)

lemma add_each_size2:
  assumes "add_each A x ys = Inr r"
    and "tensor3.size2 x = 1 \<longrightarrow> (\<forall>y \<in> set ys. tensor3.size2 y = 1)"
  shows "tensor3.size2 r = tensor3.size2 x"
  using assms
proof (induction ys arbitrary: x)
  case Nil
  then show ?case by simp
next
  case (Cons y ys)
  from Cons.prems(1) obtain z where z: "tensor_add A x y = Inr z" and r: "add_each A z ys = Inr r"
    by (auto split: sum.splits)
  have zx: "tensor3.size2 z = tensor3.size2 x"
    using tensor_add_size2 [OF z] Cons.prems(2) by simp
  show ?case
    using Cons.IH [OF r] Cons.prems(2) zx by simp
qed

lemma cat_onto_size2:
  assumes "cat_onto x ys = Inr r"
  shows "tensor3.size2 r = tensor3.size2 x + sum_list (map tensor3.size2 ys)"
  using assms
proof (induction ys arbitrary: x)
  case Nil
  then show ?case by simp
next
  case (Cons y ys)
  from Cons.prems obtain z where z: "cat2 x y = Inr z" and r: "cat_onto z ys = Inr r"
    by (auto split: sum.splits)
  have "tensor3.size2 z = tensor3.size2 x + tensor3.size2 y"
    using z by (auto simp: cat2_def split: if_splits)
  then show ?case
    using Cons.IH [OF r] by simp
qed

lemma forward_width:
  assumes c: "counted self"
    and out: "Embedding_forward A C training self draw data = Inr out"
    and sums: "embedding_dim (embedding self) = 1 \<longrightarrow>
                 (\<forall>p \<in> set (zip (factor_embeds self) (factor_combinations self)).
                    in_sum C (snd p) \<longrightarrow> embedding_dim (fst p) = 1)"
  shows "tensor3.size2 out =
           embedding_dim (embedding self) +
           sum_list (map (\<lambda>p. embedding_dim (fst p))
                      (filter (\<lambda>p. in_concat C (snd p))
                         (zip (factor_embeds self) (factor_combinations self))))"
proof -
  let ?ps = "zip (factor_embeds self) (factor_combinations self)"
  from out obtain primary fs r where
    primary: "embed_factor data 0 (embedding self) = Inr primary" and
    fs: "embed_factors C data 1 ?ps = Inr fs" and
    comb: "combine_all A primary (bucket (in_average C) fs) (bucket (in_sum C) fs)
             (bucket (in_concat C) fs) = Inr r" and
    o: "out = apply_dropout training (Embedding.dropout self) draw r"
    unfolding Embedding_forward_formula [OF c] by (auto split: sum.splits)
  from comb obtain m summed where
    m: "(if bucket (in_average C) fs \<noteq> []
         then stack_mean A (primary # bucket (in_average C) fs) else Inr primary) = Inr m" and
    summed: "add_each A m (bucket (in_sum C) fs) = Inr summed" and
    r: "pt_cat (summed # bucket (in_concat C) fs) = Inr r"
    unfolding combine_all_Inr by blast
  have w0: "tensor3.size2 m = embedding_dim (embedding self)"
    using mean_step_sizes(3) [OF m] embed_factor_sizes(3) [OF primary] by simp
  have "embedding_dim (embedding self) = 1 \<longrightarrow>
          (\<forall>d \<in> set (map tensor3.size2 (bucket (in_sum C) fs)). d = 1)"
    unfolding bucket_widths [OF fs] using sums by auto
  then have "tensor3.size2 m = 1 \<longrightarrow>
               (\<forall>y \<in> set (bucket (in_sum C) fs). tensor3.size2 y = 1)"
    using w0 by simp
  from add_each_size2 [OF summed this]
  have w1: "tensor3.size2 summed = embedding_dim (embedding self)"
    using w0 by simp
  have "tensor3.size2 r = tensor3.size2 summed
          + sum_list (map tensor3.size2 (bucket (in_concat C) fs))"
    using r by (simp add: pt_cat_def cat_onto_size2)
  then show ?thesis
    by (simp add: o w1 bucket_widths [OF fs])
qed

lemma init_factors_widths:
  "map (\<lambda>p. (embedding_dim (fst p), snd p)) (zip (fst (init_factors emb w i fcs)) fcs) =
     map (\<lambda>fc. (if share_embedding fc then embedding_dim emb else FactorConfig.num_embed fc, fc))
       fcs"
  by (induction fcs arbitrary: i) (simp_all add: split_def Let_def new_nn_Embedding_def)

lemma init_factors_shared:
  "k < length fcs \<Longrightarrow> share_embedding (fcs ! k) \<Longrightarrow> fst (init_factors emb w i fcs) ! k = emb"
proof (induction fcs arbitrary: i k)
  case Nil
  then show ?case by simp
next
  case (Cons fc fcs)
  then show ?case
    by (cases k) (simp_all add: split_def Let_def)
qed

lemma zip_tables_modes:
  "zip ts (map combine fcs) = map (\<lambda>p. (fst p, combine (snd p))) (zip ts fcs)"
  by (simp add: zip_map2 split_def)

text \<open>The width of the table each configured factor uses, next to its configuration.\<close>

lemma init_widths:
  fixes vs ne dr fcs sparse pre w
  defines "self \<equiv> Embedding_init (new_EmbeddingConfig vs ne dr fcs sparse) pre w"
  shows "map (\<lambda>p. (embedding_dim (fst p), snd p))
           (zip (factor_embeds self) (configured_factors fcs)) =
         map (\<lambda>fc. (if share_embedding fc then embedding_dim (embedding self)
                     else FactorConfig.num_embed fc, fc))
           (configured_factors fcs)"
  by (simp add: self_def Embedding_init_fields new_EmbeddingConfig_fields init_factors_widths)

lemma forward_width_config:
  fixes vs ne dr fcs sparse pre w
  defines "self \<equiv> Embedding_init (new_EmbeddingConfig vs ne dr fcs sparse) pre w"
  assumes out: "Embedding_forward A C training self draw data = Inr out"
    and sums: "embedding_dim (embedding self) = 1 \<longrightarrow>
                 (\<forall>fc \<in> set (configured_factors fcs).
                    combine fc = FACTORS_COMBINE_SUM C \<and> \<not> share_embedding fc \<longrightarrow>
                    FactorConfig.num_embed fc = 1)"
  shows "tensor3.size2 out =
           embedding_dim (embedding self) +
           sum_list (map fst (filter (\<lambda>q. combine (snd q) = FACTORS_COMBINE_CONCAT C)
             (map (\<lambda>p. (embedding_dim (fst p), snd p))
                (zip (factor_embeds self) (configured_factors fcs)))))"
proof -
  let ?fcs = "configured_factors fcs"
  let ?ws = "map (\<lambda>p. (embedding_dim (fst p), snd p)) (zip (factor_embeds self) ?fcs)"
  have c: "counted self" unfolding self_def by (rule counted_init)
  have ps: "zip (factor_embeds self) (factor_combinations self)
              = map (\<lambda>p. (fst p, combine (snd p))) (zip (factor_embeds self) ?fcs)"
    by (simp add: self_def Embedding_init_fields new_EmbeddingConfig_fields zip_tables_modes)
  have ws: "?ws = map (\<lambda>fc. (if share_embedding fc then embedding_dim (embedding self)
                               else FactorConfig.num_embed fc, fc)) ?fcs"
    unfolding self_def by (rule init_widths)
  have s: "embedding_dim (embedding self) = 1 \<longrightarrow>
             (\<forall>p \<in> set (zip (factor_embeds self) (factor_combinations self)).
                in_sum C (snd p) \<longrightarrow> embedding_dim (fst p) = 1)"
  proof (intro impI ballI)
    fix p
    assume one: "embedding_dim (embedding self) = 1"
      and p: "p \<in> set (zip (factor_embeds self) (factor_combinations self))"
      and m: "in_sum C (snd p)"
    from p obtain q where q: "q \<in> set (zip (factor_embeds self) ?fcs)"
      and pq: "p = (fst q, combine (snd q))"
      unfolding ps by auto
    have "(embedding_dim (fst q), snd q) \<in> set ?ws" using q by force
    then obtain fc where fc: "fc \<in> set ?fcs"
      and e: "(embedding_dim (fst q), snd q) =
                (if share_embedding fc then embedding_dim (embedding self)
                 else FactorConfig.num_embed fc, fc)"
      unfolding ws by auto
    have "combine fc = FACTORS_COMBINE_SUM C" using m pq e by (simp add: in_sum_def)
    then show "embedding_dim (fst p) = 1"
      using sums one fc e pq by (cases "share_embedding fc") auto
  qed
  have "tensor3.size2 out =
           embedding_dim (embedding self) +
           sum_list (map (\<lambda>p. embedding_dim (fst p))
                      (filter (\<lambda>p. in_concat C (snd p))
                         (zip (factor_embeds self) (factor_combinations self))))"
    by (rule forward_width [OF c out s])
  also have "map (\<lambda>p. embedding_dim (fst p))
                      (filter (\<lambda>p. in_concat C (snd p))
                         (zip (factor_embeds self) (factor_combinations self)))
             = map fst (filter (\<lambda>q. combine (snd q) = FACTORS_COMBINE_CONCAT C) ?ws)"
    unfolding ps by (simp add: filter_map comp_def in_concat_def)
  finally show ?thesis .
qed

lemmas example_eval =
  Embedding_forward_def Embedding_init_def new_EmbeddingConfig_def EmbeddingConfig_post_init_def
  new_nn_Embedding_def select_factor_def nn_Embedding_forward_def ids_in_range_def
  combine_buckets_def pt_stack_def pt_mean_def same_shape_def tensor_add_def broadcast_size_def
  pt_cat_def cat2_def apply_dropout_def example_constants_def example_data_def Let_def upt_rec

lemma broadcast_example_width:
  "map_sum id tensor3.size2
     (Embedding_forward float32 example_constants True
        (Embedding_init (new_EmbeddingConfig 10 1 0 (Some broadcast_factor_configs) False) None
           example_weights) example_draw example_data) = Inr 3"
  by (simp add: example_eval broadcast_factor_configs_def)

lemma shared_example_ok:
  "\<exists>out. Embedding_forward float32 example_constants True
        (Embedding_init (new_EmbeddingConfig 10 4 0 (Some shared_factor_configs) False) None
           example_weights) example_draw example_data = Inr out"
  by (simp add: example_eval shared_factor_configs_def)

lemma good_example_ok:
  "\<exists>out. Embedding_forward float32 example_constants True
        (Embedding_init (new_EmbeddingConfig 10 4 0 (Some example_factor_configs) False) None
           example_weights) example_draw example_data = Inr out"
  by (simp add: example_eval example_factor_configs_def)

text \<open>
  C3, as the code has it: when \<open>Embedding.forward\<close> returns, the primary table has
  the configured width \<open>num_embed\<close>, and no sum-mode factor is wider than a primary of
  width 1, the feature width of the result is \<open>num_embed\<close> plus the widths of the
  embedding tables of the concatenate-mode factors, in particular \<open>num_embed\<close> when
  no factor is concatenated.
\<close>

theorem output_width:
  assumes "Embedding_forward A C training
             (Embedding_init (new_EmbeddingConfig vs ne dr fcs sparse) pre w) draw data = Inr out"
    and "embedding_dim (embedding (Embedding_init (new_EmbeddingConfig vs ne dr fcs sparse) pre w))
           = ne"
    and "ne = 1 \<longrightarrow>
           (\<forall>fc \<in> set (configured_factors fcs).
              combine fc = FACTORS_COMBINE_SUM C \<and> \<not> share_embedding fc \<longrightarrow>
              FactorConfig.num_embed fc = 1)"
  shows "tensor3.size2 out =
           ne + sum_list
                  (map (\<lambda>p. embedding_dim (fst p))
                     (filter (\<lambda>p. combine (snd p) = FACTORS_COMBINE_CONCAT C)
                        (zip (factor_embeds
                                (Embedding_init (new_EmbeddingConfig vs ne dr fcs sparse) pre w))
                           (configured_factors fcs)))) \<and>
         ((\<forall>fc \<in> set (configured_factors fcs). combine fc \<noteq> FACTORS_COMBINE_CONCAT C) \<longrightarrow>
            tensor3.size2 out = ne)"
proof -
  let ?self = "Embedding_init (new_EmbeddingConfig vs ne dr fcs sparse) pre w"
  let ?zs = "zip (factor_embeds ?self) (configured_factors fcs)"
  have "tensor3.size2 out =
          ne + sum_list (map fst (filter (\<lambda>q. combine (snd q) = FACTORS_COMBINE_CONCAT C)
                 (map (\<lambda>p. (embedding_dim (fst p), snd p)) ?zs)))"
    using forward_width_config [OF assms(1)] assms(2,3) by simp
  then have w: "tensor3.size2 out =
          ne + sum_list (map (\<lambda>p. embedding_dim (fst p))
                 (filter (\<lambda>p. combine (snd p) = FACTORS_COMBINE_CONCAT C) ?zs))"
    by (simp add: filter_map comp_def)
  have "filter (\<lambda>p. combine (snd p) = FACTORS_COMBINE_CONCAT C) ?zs = []"
    if "\<forall>fc \<in> set (configured_factors fcs). combine fc \<noteq> FACTORS_COMBINE_CONCAT C"
    using that by (auto simp: filter_empty_conv dest: set_zip_rightD)
  then show ?thesis
    using w by simp
qed

theorem output_width_witness:
  "embedding_dim
     (embedding (Embedding_init (new_EmbeddingConfig 10 4 0 (Some example_factor_configs) False)
                   None example_weights)) = 4 \<and>
   map_sum id tensor3.size2
     (Embedding_forward float32 example_constants True
        (Embedding_init (new_EmbeddingConfig 10 4 0 (Some example_factor_configs) False) None
           example_weights) example_draw example_data) = Inr (4 + 2)"
proof -
  let ?self = "Embedding_init (new_EmbeddingConfig 10 4 0 (Some example_factor_configs) False)
                 None example_weights"
  from good_example_ok obtain out where
    out: "Embedding_forward float32 example_constants True ?self example_draw example_data = Inr out"
    by blast
  have h2: "embedding_dim (embedding ?self) = 4"
    by (simp add: Embedding_init_fields new_EmbeddingConfig_fields new_nn_Embedding_def)
  have h3: "(4::nat) = 1 \<longrightarrow>
           (\<forall>fc \<in> set (configured_factors (Some example_factor_configs)).
              combine fc = FACTORS_COMBINE_SUM example_constants \<and> \<not> share_embedding fc \<longrightarrow>
              FactorConfig.num_embed fc = 1)"
    by simp
  have "tensor3.size2 out = 4 + 2"
    using output_width [OF out h2 h3]
    by (simp add: Embedding_init_fields new_EmbeddingConfig_fields new_nn_Embedding_def
        configured_factors_def example_factor_configs_def example_constants_def Let_def)
  then show ?thesis
    using h2 out by simp
qed

text \<open>
  C3, as the specification has it, fails: with \<open>num_embed = 1\<close> and one sum-mode
  factor of width 3, nothing is concatenated, and the addition broadcasts the primary
  embedding, so that the result has feature width 3.
\<close>

theorem output_width_counterexample:
  "map combine broadcast_factor_configs = [''sum''] \<and>
   FACTORS_COMBINE_CONCAT example_constants = ''concat'' \<and>
   EmbeddingConfig.num_embed (new_EmbeddingConfig 10 1 0 (Some broadcast_factor_configs) False)
     = 1 \<and>
   map_sum id tensor3.size2
     (Embedding_forward float32 example_constants True
        (Embedding_init (new_EmbeddingConfig 10 1 0 (Some broadcast_factor_configs) False) None
           example_weights) example_draw example_data) = Inr 3"
  using broadcast_example_width
  by (simp add: broadcast_factor_configs_def example_constants_def new_EmbeddingConfig_fields)

lemma embed_factor_explicit:
  "embed_factor data i table =
     (if i < tensor3.size2 data \<and>
         (\<forall>b < tensor3.size0 data. \<forall>t < tensor3.size1 data.
            0 \<le> at3 data b t i \<and> at3 data b t i < int (num_embeddings table))
      then Inr \<lparr>tensor3.size0 = tensor3.size0 data, tensor3.size1 = tensor3.size1 data,
                tensor3.size2 = embedding_dim table,
                at3 = (\<lambda>b t c. weight table (nat (at3 data b t i)) c)\<rparr>
      else Inl IndexError)"
  by (auto simp: embed_factor_def select_factor_def nn_Embedding_forward_def ids_in_range_def
      list_all_iff)

lemma wide_example_eval:
  "map_sum id (\<lambda>x. (tensor3.size2 x, at3 x 0 1 7))
     (Embedding_forward float32 example_constants True
        (Embedding_init (new_EmbeddingConfig 10 4 0 (Some shared_factor_configs) False)
           (Some wide_table) example_weights) example_draw example_data)
   = Inr (12, 21)"
  by (simp add: example_eval shared_factor_configs_def wide_table_def example_weights_def)

text \<open>
  C10, as the code has it: a factor with \<open>share_embedding\<close> is given the primary table
  itself, which is the table passed to the constructor when there is one and a new table
  of \<open>vocab_size\<close> rows of width \<open>num_embed\<close> otherwise. The lookup of the factor
  raises unless the input has the slice of the factor and every id of the slice is a row
  of the primary table, and then returns, for every position, that row of the primary
  table: vectors of the width of the primary table, whatever the factor's own
  \<open>vocab_size\<close> and \<open>num_embed\<close>. And when \<open>forward\<close> returns and no sum-mode
  factor is wider than a primary table of width 1, the feature width of the result is
  the width of the primary table plus, for each concatenate-mode factor, the width of
  the primary table when the factor shares the embedding and its own \<open>num_embed\<close>
  otherwise.
\<close>

theorem shared_factor_uses_primary_table:
  assumes "k < length (configured_factors fcs)"
    and "share_embedding (configured_factors fcs ! k)"
  shows
    "factor_embeds (Embedding_init (new_EmbeddingConfig vs ne dr fcs sparse) pre w) ! k
       = embedding (Embedding_init (new_EmbeddingConfig vs ne dr fcs sparse) pre w) \<and>
     embedding (Embedding_init (new_EmbeddingConfig vs ne dr fcs sparse) pre w)
       = (case pre of Some e \<Rightarrow> e | None \<Rightarrow> new_nn_Embedding (w 0) vs ne) \<and>
     embed_factor data (Suc k)
         (factor_embeds (Embedding_init (new_EmbeddingConfig vs ne dr fcs sparse) pre w) ! k)
       = (if Suc k < tensor3.size2 data \<and>
             (\<forall>b < tensor3.size0 data. \<forall>t < tensor3.size1 data.
                0 \<le> at3 data b t (Suc k) \<and>
                at3 data b t (Suc k)
                  < int (num_embeddings (case pre of Some e \<Rightarrow> e
                                         | None \<Rightarrow> new_nn_Embedding (w 0) vs ne)))
          then Inr \<lparr>tensor3.size0 = tensor3.size0 data, tensor3.size1 = tensor3.size1 data,
                    tensor3.size2 = embedding_dim (case pre of Some e \<Rightarrow> e
                                                  | None \<Rightarrow> new_nn_Embedding (w 0) vs ne),
                    at3 = (\<lambda>b t c. weight (case pre of Some e \<Rightarrow> e
                                             | None \<Rightarrow> new_nn_Embedding (w 0) vs ne)
                                       (nat (at3 data b t (Suc k))) c)\<rparr>
          else Inl IndexError) \<and>
     (Embedding_forward A C training
        (Embedding_init (new_EmbeddingConfig vs ne dr fcs sparse) pre w) draw data = Inr out \<and>
      (embedding_dim (embedding (Embedding_init (new_EmbeddingConfig vs ne dr fcs sparse) pre w))
         = 1 \<longrightarrow>
         (\<forall>fc \<in> set (configured_factors fcs).
            combine fc = FACTORS_COMBINE_SUM C \<and> \<not> share_embedding fc \<longrightarrow>
            FactorConfig.num_embed fc = 1)) \<longrightarrow>
      tensor3.size2 out =
        embedding_dim (embedding (Embedding_init (new_EmbeddingConfig vs ne dr fcs sparse) pre w))
        + sum_list
            (map (\<lambda>fc. if share_embedding fc
                       then embedding_dim
                              (embedding
                                 (Embedding_init (new_EmbeddingConfig vs ne dr fcs sparse) pre w))
                       else FactorConfig.num_embed fc)
               (filter (\<lambda>fc. combine fc = FACTORS_COMBINE_CONCAT C) (configured_factors fcs))))"
proof -
  let ?self = "Embedding_init (new_EmbeddingConfig vs ne dr fcs sparse) pre w"
  let ?fcs = "configured_factors fcs"
  let ?primary = "case pre of Some e \<Rightarrow> e | None \<Rightarrow> new_nn_Embedding (w 0) vs ne"
  have shared: "factor_embeds ?self ! k = embedding ?self"
    using assms
    by (simp add: Embedding_init_fields(4) new_EmbeddingConfig_fields init_factors_shared)
  have primary: "embedding ?self = ?primary"
    by (simp add: Embedding_init_fields new_EmbeddingConfig_fields split: option.splits)
  have lookup: "embed_factor data (Suc k) (factor_embeds ?self ! k)
       = (if Suc k < tensor3.size2 data \<and>
             (\<forall>b < tensor3.size0 data. \<forall>t < tensor3.size1 data.
                0 \<le> at3 data b t (Suc k) \<and>
                at3 data b t (Suc k) < int (num_embeddings ?primary))
          then Inr \<lparr>tensor3.size0 = tensor3.size0 data, tensor3.size1 = tensor3.size1 data,
                    tensor3.size2 = embedding_dim ?primary,
                    at3 = (\<lambda>b t c. weight ?primary (nat (at3 data b t (Suc k))) c)\<rparr>
          else Inl IndexError)"
    unfolding shared primary by (rule embed_factor_explicit)
  have width: "tensor3.size2 out =
      embedding_dim (embedding ?self) + sum_list
             (map (\<lambda>fc. if share_embedding fc then embedding_dim (embedding ?self)
                        else FactorConfig.num_embed fc)
                (filter (\<lambda>fc. combine fc = FACTORS_COMBINE_CONCAT C) ?fcs))"
    if out: "Embedding_forward A C training ?self draw data = Inr out"
      and sums: "embedding_dim (embedding ?self) = 1 \<longrightarrow>
       (\<forall>fc \<in> set ?fcs.
          combine fc = FACTORS_COMBINE_SUM C \<and> \<not> share_embedding fc \<longrightarrow>
          FactorConfig.num_embed fc = 1)"
  proof -
    have "tensor3.size2 out =
          embedding_dim (embedding ?self)
          + sum_list (map fst (filter (\<lambda>q. combine (snd q) = FACTORS_COMBINE_CONCAT C)
                 (map (\<lambda>p. (embedding_dim (fst p), snd p)) (zip (factor_embeds ?self) ?fcs))))"
      by (rule forward_width_config [OF out sums])
    then show ?thesis
      unfolding init_widths by (simp add: filter_map comp_def)
  qed
  show ?thesis
    using shared primary lookup width by blast
qed

theorem shared_factor_uses_primary_table_witness:
  "0 < length (configured_factors (Some shared_factor_configs)) \<and>
   share_embedding (configured_factors (Some shared_factor_configs) ! 0) \<and>
   FactorConfig.vocab_size (configured_factors (Some shared_factor_configs) ! 0) = 5 \<and>
   FactorConfig.num_embed (configured_factors (Some shared_factor_configs) ! 0) = 2 \<and>
   factor_embeds (Embedding_init (new_EmbeddingConfig 10 4 0 (Some shared_factor_configs) False)
                    (Some wide_table) example_weights) ! 0
     = wide_table \<and>
   map_sum id (\<lambda>x. (tensor3.size2 x, at3 x 0 1 5))
     (embed_factor example_data 1
        (factor_embeds (Embedding_init (new_EmbeddingConfig 10 4 0 (Some shared_factor_configs) False)
                    (Some wide_table) example_weights) ! 0))
     = Inr (embedding_dim wide_table, weight wide_table 2 5) \<and>
   map_sum id tensor3.size2
     (Embedding_forward float32 example_constants True
        (Embedding_init (new_EmbeddingConfig 10 4 0 (Some shared_factor_configs) False)
           (Some wide_table) example_weights) example_draw example_data) = Inr (6 + 6)"
proof -
  let ?self = "Embedding_init (new_EmbeddingConfig 10 4 0 (Some shared_factor_configs) False)
                 (Some wide_table) example_weights"
  let ?fcs = "configured_factors (Some shared_factor_configs)"
  have k: "0 < length ?fcs" and sh: "share_embedding (?fcs ! 0)"
    and n5: "FactorConfig.vocab_size (?fcs ! 0) = 5"
    and n2: "FactorConfig.num_embed (?fcs ! 0) = 2"
    by (simp_all add: configured_factors_def shared_factor_configs_def)
  from wide_example_eval obtain out where
    out: "Embedding_forward float32 example_constants True ?self example_draw example_data = Inr out"
    by (cases "Embedding_forward float32 example_constants True ?self example_draw example_data")
      simp_all
  note inst = shared_factor_uses_primary_table [OF k sh, where vs = 10 and ne = 4 and dr = 0
      and sparse = False and pre = "Some wide_table" and w = example_weights
      and data = example_data and A = float32 and C = example_constants and training = True
      and draw = example_draw and out = out]
  note shared = inst [THEN conjunct1]
    and primary = inst [THEN conjunct2, THEN conjunct1]
    and lookup = inst [THEN conjunct2, THEN conjunct2, THEN conjunct1]
    and width = inst [THEN conjunct2, THEN conjunct2, THEN conjunct2]
  have tab: "factor_embeds ?self ! 0 = wide_table"
    using shared primary by simp
  have dim: "embedding_dim (embedding ?self) = 6"
    using primary by (simp add: wide_table_def new_nn_Embedding_def)
  have look: "map_sum id (\<lambda>x. (tensor3.size2 x, at3 x 0 1 5))
                     (embed_factor example_data 1 (factor_embeds ?self ! 0))
                   = Inr (embedding_dim wide_table, weight wide_table 2 5)"
    using lookup by (simp add: example_data_def wide_table_def new_nn_Embedding_def)
  have "tensor3.size2 out =
      6 + sum_list
             (map (\<lambda>fc. if share_embedding fc then 6 else FactorConfig.num_embed fc)
                (filter (\<lambda>fc. combine fc = FACTORS_COMBINE_CONCAT example_constants) ?fcs))"
    using width [unfolded dim] out by simp
  then have "tensor3.size2 out = 6 + 6"
    by (simp add: configured_factors_def shared_factor_configs_def example_constants_def)
  then show ?thesis
    using k sh n5 n2 tab look out by simp
qed

text \<open>
  C10, as the specification has it, fails: the constructor takes a pre-existing primary
  table and does not compare its width with the configured \<open>num_embed\<close>. With a table
  of width 6, \<open>num_embed = 4\<close> and one concatenate-mode factor that shares the
  embedding, the vectors of the factor have width 6 and the result has width 12, not
  \<open>4 + 4\<close>.
\<close>

theorem shared_factor_uses_primary_table_counterexample:
  "map share_embedding shared_factor_configs = [True] \<and>
   map combine shared_factor_configs = [FACTORS_COMBINE_CONCAT example_constants] \<and>
   EmbeddingConfig.num_embed (new_EmbeddingConfig 10 4 0 (Some shared_factor_configs) False)
     = 4 \<and>
   embedding_dim wide_table = 6 \<and>
   map_sum id tensor3.size2
     (embed_factor example_data 1
        (factor_embeds
           (Embedding_init (new_EmbeddingConfig 10 4 0 (Some shared_factor_configs) False)
              (Some wide_table) example_weights) ! 0)) = Inr 6 \<and>
   map_sum id (\<lambda>x. (tensor3.size2 x, at3 x 0 1 7))
     (Embedding_forward float32 example_constants True
        (Embedding_init (new_EmbeddingConfig 10 4 0 (Some shared_factor_configs) False)
           (Some wide_table) example_weights) example_draw example_data)
     = Inr (12, weight wide_table 2 1)"
proof -
  have "embed_factor example_data 1
          (factor_embeds
             (Embedding_init (new_EmbeddingConfig 10 4 0 (Some shared_factor_configs) False)
                (Some wide_table) example_weights) ! 0)
        = embed_factor example_data 1 wide_table"
    by (simp add: Embedding_init_def new_EmbeddingConfig_def EmbeddingConfig_post_init_def
        shared_factor_configs_def Let_def)
  moreover have "map_sum id tensor3.size2 (embed_factor example_data 1 wide_table) = Inr 6"
    by (simp add: embed_factor_def select_factor_def nn_Embedding_forward_def ids_in_range_def
        example_data_def wide_table_def new_nn_Embedding_def upt_rec)
  moreover have "weight wide_table 2 1 = 21"
    by (simp add: wide_table_def new_nn_Embedding_def example_weights_def)
  ultimately show ?thesis
    using wide_example_eval
    by (simp add: shared_factor_configs_def example_constants_def new_EmbeddingConfig_fields
        wide_table_def new_nn_Embedding_def)
qed

subsection \<open>Rounding to 32-bit floating-point numbers\<close>

text \<open>
  Within a binade, \<open>2 ^ e \<le> |x| < 2 ^ (e + 1)\<close>, the numbers of the format are the
  multiples of \<open>2 ^ (e - 23)\<close>.
\<close>

lemma round32_binade:
  assumes "2 powr of_int e \<le> \<bar>x\<bar>" and "\<bar>x\<bar> < 2 powr of_int (e + 1)"
  shows "round32 x = 2 powr of_int (e - 23) * of_int (round_even (x / 2 powr of_int (e - 23)))"
proof -
  have "(0::real) < 2 powr of_int e" by simp
  then have pos: "0 < \<bar>x\<bar>" using assms(1) by (rule less_le_trans)
  then have "\<lfloor>log 2 \<bar>x\<bar>\<rfloor> = e"
    using assms by (simp add: floor_log_eq_powr_iff)
  moreover have "x \<noteq> 0" using pos by simp
  ultimately show ?thesis
    by (simp add: round32_def Let_def)
qed

lemma round32_0: "round32 0 = 0"
  by (simp add: round32_def)

lemma round32_values:
  "round32 1 = 1" "round32 3 = 3" "round32 5 = 5"
  "round32 (5 / 3) = 13981013 / 8388608"
  "round32 (30758229 / 8388608) = 7689557 / 2097152"
  "round32 16777217 = 16777216"
  using round32_binade [of 0 1] round32_binade [of 1 3] round32_binade [of 2 5]
    round32_binade [of 0 "5 / 3"] round32_binade [of 1 "30758229 / 8388608"]
    round32_binade [of 24 16777217]
  by (simp_all add: round_even_def Let_def powr_minus powr_numeral)

lemma float32_add: "float_add float32 x y = round32 (x + y)"
  by (simp add: float32_def)

lemma float32_mean:
  "float_mean float32 xs = round32 (foldl (\<lambda>s x. round32 (s + x)) 0 xs / real (length xs))"
  by (simp add: float32_def)

text \<open>
  The arithmetic of 32-bit floating-point numbers depends on the order of the operands:
  \<open>(2 ^ 24 + 1) - 2 ^ 24\<close> is 0 and \<open>(2 ^ 24 - 2 ^ 24) + 1\<close> is 1.
\<close>

lemma float32_order_dependent: "\<not> order_independent float32"
proof
  assume "order_independent float32"
  then have "float_add float32 (float_add float32 16777216 1) (- 16777216)
               = float_add float32 (float_add float32 16777216 (- 16777216)) 1"
    unfolding order_independent_def by blast
  then show False
    by (simp add: float32_add round32_values round32_0)
qed

subsection \<open>The order of the factors\<close>

lemma bidx_broadcast:
  assumes "broadcast_size a s = Some r"
  shows "bidx a (bidx r i) = bidx a i" and "bidx s (bidx r i) = bidx s i"
  using assms by (auto simp: broadcast_size_def bidx_def split: if_splits)


lemma tensor_add_Inr:
  "tensor_add A x y = Inr r \<longleftrightarrow>
     (\<exists>n0 n1 n2. broadcast_size (tensor3.size0 x) (tensor3.size0 y) = Some n0 \<and>
        broadcast_size (tensor3.size1 x) (tensor3.size1 y) = Some n1 \<and>
        broadcast_size (tensor3.size2 x) (tensor3.size2 y) = Some n2 \<and>
        r = \<lparr>tensor3.size0 = n0, tensor3.size1 = n1, tensor3.size2 = n2,
             at3 = (\<lambda>b t k. float_add A (broadcast_at x b t k) (broadcast_at y b t k))\<rparr>)"
  by (auto simp: tensor_add_def split: option.splits)

lemma tensor_add_Inl:
  "tensor_add A x y = Inl e \<longleftrightarrow>
     e = RuntimeError \<and>
     (broadcast_size (tensor3.size0 x) (tensor3.size0 y) = None \<or>
      broadcast_size (tensor3.size1 x) (tensor3.size1 y) = None \<or>
      broadcast_size (tensor3.size2 x) (tensor3.size2 y) = None)"
  by (auto simp: tensor_add_def split: option.splits)

lemma broadcast_at_add:
  assumes "tensor_add A x y = Inr r"
  shows "broadcast_at r b t k = float_add A (broadcast_at x b t k) (broadcast_at y b t k)"
proof -
  from assms obtain n0 n1 n2 where
    n0: "broadcast_size (tensor3.size0 x) (tensor3.size0 y) = Some n0" and
    n1: "broadcast_size (tensor3.size1 x) (tensor3.size1 y) = Some n1" and
    n2: "broadcast_size (tensor3.size2 x) (tensor3.size2 y) = Some n2" and
    r: "r = \<lparr>tensor3.size0 = n0, tensor3.size1 = n1, tensor3.size2 = n2,
             at3 = (\<lambda>b t k. float_add A (broadcast_at x b t k) (broadcast_at y b t k))\<rparr>"
    unfolding tensor_add_Inr by blast
  show ?thesis
    unfolding r
    by (simp add: broadcast_at_def bidx_broadcast [OF n0] bidx_broadcast [OF n1]
        bidx_broadcast [OF n2])
qed






lemma stacked_values:
  "map (\<lambda>n. at3 ((x # a) ! n) b t k) [0..<Suc (length a)]
     = at3 x b t k # map (\<lambda>y. at3 y b t k) a"
proof -
  have "map (\<lambda>n. at3 ((x # a) ! n) b t k) [0..<length (x # a)]
          = map (\<lambda>y. at3 y b t k) (map (nth (x # a)) [0..<length (x # a)])"
    by (simp only: map_map comp_def)
  also have "\<dots> = map (\<lambda>y. at3 y b t k) (x # a)"
    by (simp only: map_nth)
  finally show ?thesis by simp
qed

lemma stack_mean_closed:
  "stack_mean A (x # a) =
     (if \<forall>y \<in> set a. same_shape y x
      then Inr \<lparr>tensor3.size0 = tensor3.size0 x, tensor3.size1 = tensor3.size1 x,
                tensor3.size2 = tensor3.size2 x,
                at3 = (\<lambda>b t k. float_mean A (at3 x b t k # map (\<lambda>y. at3 y b t k) a))\<rparr>
      else Inl RuntimeError)"
  using stacked_values [of x a]
  by (simp add: stack_mean_def pt_stack_def pt_mean_def same_shape_def list_all_iff
      del: upt_Suc)





lemma length_reorder [simp]: "length (reorder \<pi> xs) = length xs"
  by (simp add: reorder_def)































subsection \<open>The combination of the factors\<close>

lemma spec_axis_Cons:
  "spec_axis n (m # ms) = Option.bind (broadcast_size n m) (\<lambda>r. spec_axis r ms)"
  by (auto simp: broadcast_size_def)

lemma spec_read_broadcast_at: "spec_read = broadcast_at"
  by (intro ext) (simp add: spec_read_def broadcast_at_def bidx_def)

lemma spec_sum_Inl:
  assumes "a0 = None \<or> a1 = None \<or> a2 = None"
  shows "(case (a0, a1, a2) of
            (Some n0, Some n1, Some n2) \<Rightarrow> f n0 n1 n2
          | _ \<Rightarrow> Inl RuntimeError) = Inl RuntimeError"
  using assms by (cases a0; cases a1; cases a2) simp_all

lemma add_each_closed:
  "add_each A x ss =
     (case (spec_axis (tensor3.size0 x) (map tensor3.size0 ss),
            spec_axis (tensor3.size1 x) (map tensor3.size1 ss),
            spec_axis (tensor3.size2 x) (map tensor3.size2 ss)) of
        (Some n0, Some n1, Some n2) \<Rightarrow>
          Inr (if ss = [] then x
               else \<lparr>tensor3.size0 = n0, tensor3.size1 = n1, tensor3.size2 = n2,
                     at3 = (\<lambda>b t k. foldl (float_add A) (broadcast_at x b t k)
                                       (map (\<lambda>s. broadcast_at s b t k) ss))\<rparr>)
      | _ \<Rightarrow> Inl RuntimeError)"
proof (induction ss arbitrary: x)
  case Nil
  show ?case by simp
next
  case (Cons s ss)
  show ?case
  proof (cases "tensor_add A x s")
    case (Inl e)
    have e: "e = RuntimeError"
      using Inl by (simp add: tensor_add_Inl)
    have d: "broadcast_size (tensor3.size0 x) (tensor3.size0 s) = None \<or>
          broadcast_size (tensor3.size1 x) (tensor3.size1 s) = None \<or>
          broadcast_size (tensor3.size2 x) (tensor3.size2 s) = None"
      using Inl by (simp add: tensor_add_Inl)
    have none: "spec_axis (tensor3.size0 x) (map tensor3.size0 (s # ss)) = None \<or>
          spec_axis (tensor3.size1 x) (map tensor3.size1 (s # ss)) = None \<or>
          spec_axis (tensor3.size2 x) (map tensor3.size2 (s # ss)) = None"
      using d unfolding list.map spec_axis_Cons by auto
    have "add_each A x (s # ss) = Inl RuntimeError"
      by (simp add: Inl e)
    then show ?thesis
      unfolding spec_sum_Inl [OF none] .
  next
    case (Inr y)
    then obtain n0 n1 n2 where
      n0: "broadcast_size (tensor3.size0 x) (tensor3.size0 s) = Some n0" and
      n1: "broadcast_size (tensor3.size1 x) (tensor3.size1 s) = Some n1" and
      n2: "broadcast_size (tensor3.size2 x) (tensor3.size2 s) = Some n2" and
      y: "y = \<lparr>tensor3.size0 = n0, tensor3.size1 = n1, tensor3.size2 = n2,
               at3 = (\<lambda>b t k. float_add A (broadcast_at x b t k) (broadcast_at s b t k))\<rparr>"
      unfolding tensor_add_Inr by blast
    have sz: "tensor3.size0 y = n0" "tensor3.size1 y = n1" "tensor3.size2 y = n2"
      by (simp_all add: y)
    have rd: "broadcast_at y b t k = float_add A (broadcast_at x b t k) (broadcast_at s b t k)"
      for b t k
      by (rule broadcast_at_add [OF Inr])
    have ax: "spec_axis (tensor3.size0 x) (map tensor3.size0 (s # ss))
                = spec_axis n0 (map tensor3.size0 ss)"
      "spec_axis (tensor3.size1 x) (map tensor3.size1 (s # ss))
                = spec_axis n1 (map tensor3.size1 ss)"
      "spec_axis (tensor3.size2 x) (map tensor3.size2 (s # ss))
                = spec_axis n2 (map tensor3.size2 ss)"
      unfolding list.map spec_axis_Cons n0 n1 n2 by simp_all
    have step: "add_each A x (s # ss) = add_each A y ss"
      by (simp add: Inr)
    show ?thesis
    proof (cases "ss = []")
      case True
      have "y = \<lparr>tensor3.size0 = n0, tensor3.size1 = n1, tensor3.size2 = n2,
               at3 = (\<lambda>b t k. foldl (float_add A) (broadcast_at x b t k)
                                 (map (\<lambda>s. broadcast_at s b t k) [s]))\<rparr>"
        by (simp add: y)
      then show ?thesis
        unfolding step ax unfolding True by simp
    next
      case False
      then have ne: "(ss = []) = False" "(s # ss = []) = False" by simp_all
      have fl: "foldl (float_add A) (broadcast_at x b t k) (map (\<lambda>s. broadcast_at s b t k) (s # ss))
                = foldl (float_add A) (broadcast_at y b t k) (map (\<lambda>s. broadcast_at s b t k) ss)"
        for b t k
        by (simp add: rd)
      show ?thesis
        unfolding step Cons.IH [of y] sz ax ne if_False fl ..
    qed
  qed
qed

lemma spec_sum_add_each: "add_each A x ss = spec_sum A x ss"
proof (cases "ss = []")
  case True
  then show ?thesis by (simp add: spec_sum_def)
next
  case False
  then have ne: "(ss = []) = False" by simp
  show ?thesis
    unfolding add_each_closed [of A x ss] spec_sum_def spec_read_broadcast_at ne if_False ..
qed

lemma spec_lookup_embed_factor: "spec_lookup data i table = embed_factor data i table"
  unfolding embed_factor_explicit spec_lookup_def by auto

lemma spec_factors_embed_factors: "spec_factors C data i ps = embed_factors C data i ps"
  by (induction C data i ps rule: embed_factors.induct)
    (auto simp: spec_lookup_embed_factor recognised_def split: sum.splits)

lemma spec_of_mode_bucket:
  assumes "distinct [FACTORS_COMBINE_AVERAGE C, FACTORS_COMBINE_SUM C, FACTORS_COMBINE_CONCAT C]"
  shows "bucket (in_average C) fs = spec_of_mode (FACTORS_COMBINE_AVERAGE C) fs"
    and "bucket (in_sum C) fs = spec_of_mode (FACTORS_COMBINE_SUM C) fs"
    and "bucket (in_concat C) fs = spec_of_mode (FACTORS_COMBINE_CONCAT C) fs"
proof -
  have "in_average C m \<longleftrightarrow> m = FACTORS_COMBINE_AVERAGE C"
    and "in_sum C m \<longleftrightarrow> m = FACTORS_COMBINE_SUM C"
    and "in_concat C m \<longleftrightarrow> m = FACTORS_COMBINE_CONCAT C" for m
    using assms by (auto simp: in_average_def in_sum_def in_concat_def)
  then show "bucket (in_average C) fs = spec_of_mode (FACTORS_COMBINE_AVERAGE C) fs"
    and "bucket (in_sum C) fs = spec_of_mode (FACTORS_COMBINE_SUM C) fs"
    and "bucket (in_concat C) fs = spec_of_mode (FACTORS_COMBINE_CONCAT C) fs"
    by (simp_all add: bucket_def spec_of_mode_def)
qed

lemma spec_mean_stack_mean:
  "(if a \<noteq> [] then stack_mean A (primary # a) else Inr primary) = spec_mean A primary a"
  by (simp add: stack_mean_closed spec_mean_def same_shape_def list_all_iff)

lemma spec_side_by_side_cat2:
  assumes "tensor3.size2 z = tensor3.size2 x + tensor3.size2 c"
    and "at3 z = (\<lambda>b t k. if k < tensor3.size2 x then at3 x b t k
                           else at3 c b t (k - tensor3.size2 x))"
  shows "spec_side_by_side z cs = spec_side_by_side x (c # cs)"
proof (intro ext)
  fix b t k
  show "spec_side_by_side z cs b t k = spec_side_by_side x (c # cs) b t k"
    by (cases cs) (auto simp: assms)
qed

lemma spec_concat_cat_onto: "cat_onto x cs = spec_concat x cs"
proof (induction cs arbitrary: x)
  case Nil
  show ?case
    by (simp add: spec_concat_def fun_eq_iff)
next
  case (Cons c cs)
  show ?case
  proof (cases "tensor3.size0 x = tensor3.size0 c \<and> tensor3.size1 x = tensor3.size1 c")
    case False
    then show ?thesis
      by (auto simp: cat2_def spec_concat_def)
  next
    case True
    define z where "z = \<lparr>tensor3.size0 = tensor3.size0 x, tensor3.size1 = tensor3.size1 x,
                tensor3.size2 = tensor3.size2 x + tensor3.size2 c,
                at3 = (\<lambda>b t k. if k < tensor3.size2 x then at3 x b t k
                                else at3 c b t (k - tensor3.size2 x))\<rparr>"
    have c2: "cat2 x c = Inr z"
      using True by (simp add: cat2_def z_def)
    have sbs: "spec_side_by_side z cs = spec_side_by_side x (c # cs)"
      by (rule spec_side_by_side_cat2) (simp_all add: z_def)
    have "cat_onto x (c # cs) = spec_concat z cs"
      by (simp add: c2 Cons.IH)
    also have "\<dots> = spec_concat x (c # cs)"
      using True unfolding spec_concat_def sbs by (simp add: z_def add.assoc)
    finally show ?thesis .
  qed
qed

lemma spec_combine_all:
  "combine_all A primary a s c =
     (case spec_mean A primary a of
        Inl e \<Rightarrow> Inl e
      | Inr averaged \<Rightarrow>
     (case spec_sum A averaged s of
        Inl e \<Rightarrow> Inl e
      | Inr summed \<Rightarrow> spec_concat summed c))"
  by (simp add: combine_all_def spec_mean_stack_mean spec_sum_add_each pt_cat_def
      spec_concat_cat_onto cong: sum.case_cong)



lemma mixed_example_spec:
  "map_sum id (\<lambda>x. (tensor3.size0 x, tensor3.size1 x, tensor3.size2 x, at3 x 0 0 0, at3 x 0 0 1))
     (spec_Embedding_output float32 example_constants mixed_data
        (embedding (Embedding_init (new_EmbeddingConfig 1 1 0 (Some mixed_factor_configs) False)
                      None mixed_weights))
        (zip (factor_embeds
                (Embedding_init (new_EmbeddingConfig 1 1 0 (Some mixed_factor_configs) False)
                   None mixed_weights))
           (map combine (configured_factors (Some mixed_factor_configs)))))
   = Inr (1, 1, 2, 7689557 / 2097152, 2)"
  by (simp add: spec_Embedding_output_def spec_lookup_def spec_of_mode_def spec_mean_def
      spec_sum_def spec_read_def spec_concat_def Embedding_init_def new_EmbeddingConfig_def
      EmbeddingConfig_post_init_def new_nn_Embedding_def configured_factors_def
      mixed_factor_configs_def mixed_weights_def mixed_data_def example_constants_def Let_def
      float32_add float32_mean round32_values round32_0)

text \<open>
  C2: let the names of the three modes be distinct. Then \<open>Embedding.forward\<close> returns
  what the specification words. It fails exactly when the combination of the
  specification fails, with the same error; otherwise its result is the dropout module
  of the embedding, if there is one, applied to the combination of the specification:
  the elementwise mean of the primary embedding stacked together with the average-mode
  embeddings, to which the sum-mode embeddings are added elementwise one after the other,
  followed along the feature axis by the concatenate-mode embeddings.
\<close>

theorem forward_average_sum_then_concat:
  assumes "distinct [FACTORS_COMBINE_AVERAGE C, FACTORS_COMBINE_SUM C, FACTORS_COMBINE_CONCAT C]"
  shows
    "Embedding_forward A C training
       (Embedding_init (new_EmbeddingConfig vs ne dr fcs sparse) pre w) draw data =
     (case spec_Embedding_output A C data
             (embedding (Embedding_init (new_EmbeddingConfig vs ne dr fcs sparse) pre w))
             (zip (factor_embeds (Embedding_init (new_EmbeddingConfig vs ne dr fcs sparse) pre w))
                (map combine (configured_factors fcs))) of
        Inl e \<Rightarrow> Inl e
      | Inr out \<Rightarrow>
          Inr (apply_dropout training
                 (Embedding.dropout (Embedding_init (new_EmbeddingConfig vs ne dr fcs sparse) pre w))
                 draw out))"
proof -
  let ?self = "Embedding_init (new_EmbeddingConfig vs ne dr fcs sparse) pre w"
  have c: "counted ?self" by (rule counted_init)
  have m: "factor_combinations ?self = map combine (configured_factors fcs)"
    by (simp add: Embedding_init_fields new_EmbeddingConfig_fields)
  show ?thesis
    unfolding Embedding_forward_formula [OF c] m spec_Embedding_output_def
      spec_lookup_embed_factor spec_factors_embed_factors spec_combine_all
      spec_of_mode_bucket [OF assms]
    by (simp only: sum.case_distrib [of "case_sum Inl (\<lambda>out. Inr (apply_dropout training
          (Embedding.dropout ?self) draw out))"] sum.case cong: sum.case_cong)
qed

theorem forward_average_sum_then_concat_witness:
  "distinct [FACTORS_COMBINE_AVERAGE example_constants, FACTORS_COMBINE_SUM example_constants,
             FACTORS_COMBINE_CONCAT example_constants] \<and>
   map combine mixed_factor_configs =
     [FACTORS_COMBINE_AVERAGE example_constants, FACTORS_COMBINE_AVERAGE example_constants,
      FACTORS_COMBINE_SUM example_constants, FACTORS_COMBINE_CONCAT example_constants] \<and>
   map_sum id (\<lambda>x. (tensor3.size0 x, tensor3.size1 x, tensor3.size2 x, at3 x 0 0 0, at3 x 0 0 1))
     (Embedding_forward float32 example_constants True
        (Embedding_init (new_EmbeddingConfig 1 1 0 (Some mixed_factor_configs) False) None
           mixed_weights) example_draw mixed_data)
   = Inr (1, 1, 2, 7689557 / 2097152, 2)"
proof -
  let ?self = "Embedding_init (new_EmbeddingConfig 1 1 0 (Some mixed_factor_configs) False) None
                 mixed_weights"
  have d: "distinct [FACTORS_COMBINE_AVERAGE example_constants,
                     FACTORS_COMBINE_SUM example_constants,
                     FACTORS_COMBINE_CONCAT example_constants]"
    by (simp add: example_constants_def)
  have m: "map combine mixed_factor_configs =
     [FACTORS_COMBINE_AVERAGE example_constants, FACTORS_COMBINE_AVERAGE example_constants,
      FACTORS_COMBINE_SUM example_constants, FACTORS_COMBINE_CONCAT example_constants]"
    by (simp add: mixed_factor_configs_def example_constants_def)
  have dn: "Embedding.dropout ?self = None"
    by (simp add: Embedding_init_fields new_EmbeddingConfig_fields)
  note inst = forward_average_sum_then_concat [OF d, where A = float32 and training = True
      and vs = 1 and ne = 1 and dr = 0 and fcs = "Some mixed_factor_configs" and sparse = False
      and pre = None and w = mixed_weights and draw = example_draw and data = mixed_data]
  have "map_sum id
          (\<lambda>x. (tensor3.size0 x, tensor3.size1 x, tensor3.size2 x, at3 x 0 0 0, at3 x 0 0 1))
          (Embedding_forward float32 example_constants True ?self example_draw mixed_data)
        = Inr (1, 1, 2, 7689557 / 2097152, 2)"
    using mixed_example_spec unfolding inst dn
    by (cases "spec_Embedding_output float32 example_constants mixed_data (embedding ?self)
                 (zip (factor_embeds ?self)
                    (map combine (configured_factors (Some mixed_factor_configs))))")
      simp_all
  then show ?thesis
    using d m by blast
qed

section \<open>Properties of TransformerEncoder\<close>

lemma count_prefix: "v \<le> int n \<Longrightarrow> length (filter (\<lambda>j. int j < v) [0..<n]) = nat v"
  by (induction n) auto

lemma forward_results:
  assumes "TransformerEncoder_forward training self draw data valid_length
             = Inr (out, vl, single_head)"
  shows "\<exists>data1. pos_embedding self data = Inr data1 \<and> vl = valid_length \<and>
           single_head = prepare_source_length_mask valid_length
                    (attention_heads (TransformerEncoder.config self))
                    (tensor3.size1
                       (apply_dropout training (TransformerEncoder.dropout self) draw data1))"
  using assms
  by (auto simp: TransformerEncoder_forward_def Let_def split: sum.splits if_splits)

lemma example_forward:
  "TransformerEncoder_forward True example_encoder example_draw example_embedded [5, 10] =
     Inr (example_embedded, [5, 10], prepare_source_length_mask [5, 10] 2 10)"
  by (simp add: TransformerEncoder_forward_def example_encoder_def TransformerEncoder_init_def
      example_modules_def example_transformer_config_def example_embedded_def
      apply_dropout_def expand_att_mask_def transpose10_def Let_def upt_rec)

text \<open>
  C1: when \<open>TransformerEncoder.forward\<close> returns, its third value is the single-head
  mask: it has one row per entry of \<open>valid_length\<close> and \<open>max_len\<close> columns, where
  \<open>max_len\<close> is the sequence length of the data after the positional embedding
  (dropout keeps the shape); in row \<open>i\<close> position \<open>j\<close> is marked valid exactly when
  \<open>j < valid_length[i]\<close>; so for \<open>valid_length[i] \<le> max_len\<close> the valid positions
  of the row are its first \<open>valid_length[i]\<close> positions.
\<close>

theorem mask_marks_valid_prefix:
  assumes "TransformerEncoder_forward training self draw data valid_length
             = Inr (out, vl, single_head)"
  shows "\<exists>data1. pos_embedding self data = Inr data1 \<and>
           tensor2.size0 single_head = length valid_length \<and>
           tensor2.size1 single_head = tensor3.size1 data1 \<and>
           (\<forall>i < length valid_length. \<forall>j < tensor2.size1 single_head.
              at2 single_head i j \<longleftrightarrow> int j < valid_length ! i) \<and>
           (\<forall>i < length valid_length. valid_length ! i \<le> int (tensor2.size1 single_head) \<longrightarrow>
              length (filter (at2 single_head i) [0..<tensor2.size1 single_head])
                = nat (valid_length ! i))"
proof -
  from forward_results [OF assms] obtain data1 where
    p: "pos_embedding self data = Inr data1" and
    m: "single_head = prepare_source_length_mask valid_length
                 (attention_heads (TransformerEncoder.config self))
                 (tensor3.size1
                    (apply_dropout training (TransformerEncoder.dropout self) draw data1))"
    by blast
  show ?thesis
    using p by (simp add: m prepare_source_length_mask_def count_prefix)
qed

theorem mask_marks_valid_prefix_witness:
  "TransformerEncoder_forward True example_encoder example_draw example_embedded [5, 10] =
     Inr (example_embedded, [5, 10], prepare_source_length_mask [5, 10] 2 10) \<and>
   tensor2.size0 (prepare_source_length_mask [5, 10] 2 10) = 2 \<and>
   tensor2.size1 (prepare_source_length_mask [5, 10] 2 10) = 10 \<and>
   map (at2 (prepare_source_length_mask [5, 10] 2 10) 0) [0..<10] =
     [True, True, True, True, True, False, False, False, False, False] \<and>
   length (filter (at2 (prepare_source_length_mask [5, 10] 2 10) 0) [0..<10]) = 5"
proof -
  let ?m = "prepare_source_length_mask [5, 10] 2 10"
  from mask_marks_valid_prefix [OF example_forward]
  have sz: "tensor2.size0 ?m = length [5, 10 :: int]"
    and pt: "\<forall>i < length [5, 10 :: int]. \<forall>j < tensor2.size1 ?m.
               at2 ?m i j \<longleftrightarrow> int j < [5, 10] ! i"
    and ct: "\<forall>i < length [5, 10 :: int]. [5, 10] ! i \<le> int (tensor2.size1 ?m) \<longrightarrow>
               length (filter (at2 ?m i) [0..<tensor2.size1 ?m]) = nat ([5, 10] ! i)"
    by blast+
  have s1: "tensor2.size1 ?m = 10"
    by (simp add: prepare_source_length_mask_def)
  have row: "\<forall>j < 10. at2 ?m 0 j \<longleftrightarrow> int j < 5"
    using pt s1 by auto
  have cnt: "length (filter (at2 ?m 0) [0..<10]) = 5"
    using ct s1 by auto
  have "map (at2 ?m 0) [0..<10] = map (\<lambda>j. int j < 5) [0..<10]"
    using row by simp
  also have "\<dots> = [True, True, True, True, True, False, False, False, False, False]"
    by (simp add: upt_rec)
  finally show ?thesis
    using example_forward sz s1 cnt by simp
qed

text \<open>
  C8: \<open>get_encoded_seq_len\<close> returns the length it is given, for \<open>Embedding\<close> and
  for \<open>TransformerEncoder\<close>, and the second value returned by
  \<open>TransformerEncoder.forward\<close> is the \<open>valid_length\<close> it was given.
\<close>

theorem encoded_seq_len_and_valid_length_unchanged:
  "Embedding_get_encoded_seq_len emb n = n \<and>
   TransformerEncoder_get_encoded_seq_len enc n = n \<and>
   (TransformerEncoder_forward training enc draw data valid_length
      = Inr (out, vl, single_head) \<longrightarrow> vl = valid_length)"
  using forward_results [of training enc draw data valid_length out vl single_head]
  by (auto simp: Embedding_get_encoded_seq_len_def TransformerEncoder_get_encoded_seq_len_def
      Encoder_get_encoded_seq_len_def)

theorem encoded_seq_len_and_valid_length_unchanged_witness:
  "Embedding_get_encoded_seq_len
     (Embedding_init (new_EmbeddingConfig 10 4 0 (Some example_factor_configs) False) None
        example_weights) 7 = 7 \<and>
   TransformerEncoder_get_encoded_seq_len example_encoder 7 = 7 \<and>
   TransformerEncoder_forward True example_encoder example_draw example_embedded [5, 10] =
     Inr (example_embedded, [5, 10], prepare_source_length_mask [5, 10] 2 10) \<and>
   [5, 10] = [5, 10 :: int]"
  using example_forward
    encoded_seq_len_and_valid_length_unchanged
      [of "Embedding_init (new_EmbeddingConfig 10 4 0 (Some example_factor_configs) False) None
             example_weights" 7 example_encoder True example_draw example_embedded "[5, 10]"
          example_embedded "[5, 10]" "prepare_source_length_mask [5, 10] 2 10"]
  by simp

lemma get_max_seq_len_inherited:
  "TransformerEncoder_get_max_seq_len (TransformerEncoder_init M has_native_mha cfg inference)
     = None \<and>
   Embedding_get_max_seq_len (Embedding_init ecfg pre w) = None"
  by (simp add: TransformerEncoder_get_max_seq_len_def Embedding_get_max_seq_len_def
      Encoder_get_max_seq_len_def)

text \<open>
  C7 fails of the code: \<open>TransformerEncoder\<close> does not override \<open>get_max_seq_len\<close>,
  and the method it inherits from \<open>Encoder\<close> returns \<open>None\<close>. The encoder built from
  a configuration with the maximum source length 100 keeps that configuration, and its
  \<open>get_max_seq_len\<close> returns \<open>None\<close>, not 100.
\<close>

theorem get_max_seq_len_ignores_configured_maximum:
  "max_seq_len_source (TransformerEncoder.config example_encoder) = 100 \<and>
   TransformerEncoder_get_max_seq_len example_encoder = None"
  by (simp add: TransformerEncoder_get_max_seq_len_def Encoder_get_max_seq_len_def
      example_encoder_def TransformerEncoder_init_def example_transformer_config_def)

text \<open>
  C6: \<open>Embedding.get_num_hidden\<close> returns the configured \<open>num_embed\<close> whatever the
  factor configurations are, and \<open>TransformerEncoder.get_num_hidden\<close> returns the
  configured model size.
\<close>

theorem get_num_hidden_configured:
  "Embedding_get_num_hidden (Embedding_init cfg pre w) = EmbeddingConfig.num_embed cfg \<and>
   TransformerEncoder_get_num_hidden (TransformerEncoder_init M has_native_mha tc inference)
     = model_size tc"
  by (simp add: Embedding_get_num_hidden_def Embedding_init_def Let_def split_def
      TransformerEncoder_get_num_hidden_def TransformerEncoder_init_def)

text \<open>
  An instance with a concatenated factor: \<open>get_num_hidden\<close> is 4 while the result of
  \<open>forward\<close> has feature width 6.
\<close>

lemma get_num_hidden_not_widened:
  "Embedding_get_num_hidden
     (Embedding_init (new_EmbeddingConfig 10 4 0 (Some example_factor_configs) False) None
        example_weights) = 4 \<and>
   map_sum id tensor3.size2
     (Embedding_forward float32 example_constants True
        (Embedding_init (new_EmbeddingConfig 10 4 0 (Some example_factor_configs) False) None
           example_weights) example_draw example_data) = Inr 6"
  by (simp add: Embedding_get_num_hidden_def example_eval example_factor_configs_def)

section \<open>Dropout switched off\<close>

text \<open>
  C9: with dropout probability 0 neither \<open>Embedding\<close> nor \<open>TransformerEncoder\<close>
  builds a dropout module, and the result of either \<open>forward\<close> does not depend on the
  random draw: two passes on the same input with the same parameters return the same
  result.
\<close>

theorem no_dropout_deterministic:
  assumes "EmbeddingConfig.dropout cfg = 0" and "dropout_prepost tc = 0"
  shows "Embedding.dropout (Embedding_init cfg pre w) = None \<and>
         TransformerEncoder.dropout (TransformerEncoder_init M has_native_mha tc inference) = None \<and>
         Embedding_forward A C training (Embedding_init cfg pre w) draw1 data =
           Embedding_forward A C training (Embedding_init cfg pre w) draw2 data \<and>
         TransformerEncoder_forward training
             (TransformerEncoder_init M has_native_mha tc inference) draw1 x valid_length =
           TransformerEncoder_forward training
             (TransformerEncoder_init M has_native_mha tc inference) draw2 x valid_length"
proof -
  have e: "Embedding.dropout (Embedding_init cfg pre w) = None"
    using assms(1) by (simp add: Embedding_init_fields)
  have t: "TransformerEncoder.dropout (TransformerEncoder_init M has_native_mha tc inference) = None"
    using assms(2) by (simp add: TransformerEncoder_init_def Let_def)
  show ?thesis
    by (simp add: e t Embedding_forward_def TransformerEncoder_forward_def
        cong: sum.case_cong)
qed

theorem no_dropout_deterministic_witness:
  "EmbeddingConfig.dropout (new_EmbeddingConfig 10 4 0 (Some example_factor_configs) False) = 0 \<and>
   dropout_prepost example_transformer_config = 0 \<and>
   Embedding.dropout
     (Embedding_init (new_EmbeddingConfig 10 4 0 (Some example_factor_configs) False) None
        example_weights) = None \<and>
   Embedding_forward float32 example_constants True
     (Embedding_init (new_EmbeddingConfig 10 4 0 (Some example_factor_configs) False) None
        example_weights) example_draw example_data =
   Embedding_forward float32 example_constants True
     (Embedding_init (new_EmbeddingConfig 10 4 0 (Some example_factor_configs) False) None
        example_weights) keep_all example_data \<and>
   TransformerEncoder_forward True
     (TransformerEncoder_init example_modules False example_transformer_config False)
     example_draw example_embedded [5, 10] =
   TransformerEncoder_forward True
     (TransformerEncoder_init example_modules False example_transformer_config False)
     keep_all example_embedded [5, 10]"
proof -
  have h1: "EmbeddingConfig.dropout
              (new_EmbeddingConfig 10 4 0 (Some example_factor_configs) False) = 0"
    by (simp add: new_EmbeddingConfig_fields)
  have h2: "dropout_prepost example_transformer_config = 0"
    by (simp add: example_transformer_config_def)
  show ?thesis
    using h1 h2
      no_dropout_deterministic [OF h1 h2, where pre = None and w = example_weights
        and M = example_modules and has_native_mha = False and inference = False
        and A = float32 and C = example_constants and training = True
        and ?draw1.0 = example_draw and data = example_data and ?draw2.0 = keep_all
        and x = example_embedded and valid_length = "[5, 10]"]
    by simp
qed

end
